theory Spec2Isabelle
  imports Main "HOL-Library.AList"
begin

section \<open>Entities\<close>

text \<open>
  The three classes of the reservation system, \<^verbatim>\<open>Customer\<close> (customer.py),
  \<^verbatim>\<open>Hotel\<close> (hotel.py) and \<^verbatim>\<open>Reservation\<close> (reservation.py), as records.
  Identifiers, names and dates are strings, room counts are Python's unbounded integers
  and the occupant list of a hotel is a list of reservation identifiers. The attributes
  \<^verbatim>\<open>name\<close>, \<^verbatim>\<open>customer_id\<close> and \<^verbatim>\<open>hotel_id\<close> occur in two classes each; the
  second occurrence carries a prefix here, since two records of one theory cannot share
  a field name conveniently.
\<close>

record customer =
  customer_id :: string
  customer_name :: string
  email :: string
  phone :: string

record hotel =
  hotel_id :: string
  name :: string
  location :: string
  total_rooms :: int
  available_rooms :: int
  reservations :: "string list"

record reservation =
  reservation_id :: string
  res_customer_id :: string
  res_hotel_id :: string
  check_in :: string
  check_out :: string

text \<open>\<^verbatim>\<open>Hotel.__init__\<close>: a new hotel has every room available and no occupant.\<close>

definition Hotel :: "string \<Rightarrow> string \<Rightarrow> string \<Rightarrow> int \<Rightarrow> hotel" where
  "Hotel hid nm loc rooms =
     \<lparr>hotel_id = hid, name = nm, location = loc, total_rooms = rooms,
      available_rooms = rooms, reservations = []\<rparr>"

definition Customer :: "string \<Rightarrow> string \<Rightarrow> string \<Rightarrow> string \<Rightarrow> customer" where
  "Customer cid nm em ph =
     \<lparr>customer_id = cid, customer_name = nm, email = em, phone = ph\<rparr>"

definition Reservation :: "string \<Rightarrow> string \<Rightarrow> string \<Rightarrow> string \<Rightarrow> string \<Rightarrow> reservation" where
  "Reservation rid cid hid ci co =
     \<lparr>reservation_id = rid, res_customer_id = cid, res_hotel_id = hid,
      check_in = ci, check_out = co\<rparr>"

section \<open>Dictionaries on the wire\<close>

text \<open>
  What \<^verbatim>\<open>json.load\<close> hands to \<^verbatim>\<open>from_dict\<close> for one key of a store file is either a
  JSON object or some other JSON value (a number, a string, a list, null). Subscripting
  the latter with a string raises \<^verbatim>\<open>TypeError\<close>. Of an object only the keys that the
  code reads matter; each is absent or holds a value of the attribute's type.
\<close>

datatype 'd json_value = NotAnObject | Object 'd

datatype py_error = KeyError string | TypeError

record customer_dict =
  cd_customer_id :: "string option"
  cd_name :: "string option"
  cd_email :: "string option"
  cd_phone :: "string option"

record hotel_dict =
  hd_hotel_id :: "string option"
  hd_name :: "string option"
  hd_location :: "string option"
  hd_total_rooms :: "int option"
  hd_available_rooms :: "int option"
  hd_reservations :: "string list option"

record reservation_dict =
  rd_reservation_id :: "string option"
  rd_customer_id :: "string option"
  rd_hotel_id :: "string option"
  rd_check_in :: "string option"
  rd_check_out :: "string option"

text \<open>\<^verbatim>\<open>data[key]\<close>: the value, or \<^verbatim>\<open>KeyError(key)\<close>.\<close>

definition subscript :: "'a option \<Rightarrow> string \<Rightarrow> py_error + 'a" where
  "subscript field key = (case field of None \<Rightarrow> Inl (KeyError key) | Some v \<Rightarrow> Inr v)"

text \<open>\<^verbatim>\<open>data.get(key, default)\<close>.\<close>

definition get_default :: "'a option \<Rightarrow> 'a \<Rightarrow> 'a" where
  "get_default field d = (case field of None \<Rightarrow> d | Some v \<Rightarrow> v)"

subsection \<open>Customer\<close>

definition customer_to_dict :: "customer \<Rightarrow> customer_dict json_value" where
  "customer_to_dict c = Object
     \<lparr>cd_customer_id = Some (customer_id c), cd_name = Some (customer_name c),
      cd_email = Some (email c), cd_phone = Some (phone c)\<rparr>"

text \<open>The arguments of the constructor call are evaluated from left to right, so the
  first missing key is the one reported.\<close>

fun customer_from_dict :: "customer_dict json_value \<Rightarrow> py_error + customer" where
  "customer_from_dict NotAnObject = Inl TypeError"
| "customer_from_dict (Object d) =
     (case subscript (cd_customer_id d) ''customer_id'' of Inl e \<Rightarrow> Inl e | Inr cid \<Rightarrow>
      case subscript (cd_name d) ''name'' of Inl e \<Rightarrow> Inl e | Inr nm \<Rightarrow>
      case subscript (cd_email d) ''email'' of Inl e \<Rightarrow> Inl e | Inr em \<Rightarrow>
      case subscript (cd_phone d) ''phone'' of Inl e \<Rightarrow> Inl e | Inr ph \<Rightarrow>
      Inr (Customer cid nm em ph))"

subsection \<open>Hotel\<close>

definition hotel_to_dict :: "hotel \<Rightarrow> hotel_dict json_value" where
  "hotel_to_dict h = Object
     \<lparr>hd_hotel_id = Some (hotel_id h), hd_name = Some (name h),
      hd_location = Some (location h), hd_total_rooms = Some (total_rooms h),
      hd_available_rooms = Some (available_rooms h),
      hd_reservations = Some (reservations h)\<rparr>"

fun hotel_from_dict :: "hotel_dict json_value \<Rightarrow> py_error + hotel" where
  "hotel_from_dict NotAnObject = Inl TypeError"
| "hotel_from_dict (Object d) =
     (case subscript (hd_hotel_id d) ''hotel_id'' of Inl e \<Rightarrow> Inl e | Inr hid \<Rightarrow>
      case subscript (hd_name d) ''name'' of Inl e \<Rightarrow> Inl e | Inr nm \<Rightarrow>
      case subscript (hd_location d) ''location'' of Inl e \<Rightarrow> Inl e | Inr loc \<Rightarrow>
      case subscript (hd_total_rooms d) ''total_rooms'' of Inl e \<Rightarrow> Inl e | Inr rooms \<Rightarrow>
      (let h = Hotel hid nm loc rooms;
           h = h\<lparr>available_rooms := get_default (hd_available_rooms d) (total_rooms h)\<rparr>;
           h = h\<lparr>reservations := get_default (hd_reservations d) []\<rparr>
       in Inr h))"

subsection \<open>Reservation\<close>

definition reservation_to_dict :: "reservation \<Rightarrow> reservation_dict json_value" where
  "reservation_to_dict r = Object
     \<lparr>rd_reservation_id = Some (reservation_id r), rd_customer_id = Some (res_customer_id r),
      rd_hotel_id = Some (res_hotel_id r), rd_check_in = Some (check_in r),
      rd_check_out = Some (check_out r)\<rparr>"

fun reservation_from_dict :: "reservation_dict json_value \<Rightarrow> py_error + reservation" where
  "reservation_from_dict NotAnObject = Inl TypeError"
| "reservation_from_dict (Object d) =
     (case subscript (rd_reservation_id d) ''reservation_id'' of Inl e \<Rightarrow> Inl e | Inr rid \<Rightarrow>
      case subscript (rd_customer_id d) ''customer_id'' of Inl e \<Rightarrow> Inl e | Inr cid \<Rightarrow>
      case subscript (rd_hotel_id d) ''hotel_id'' of Inl e \<Rightarrow> Inl e | Inr hid \<Rightarrow>
      case subscript (rd_check_in d) ''check_in'' of Inl e \<Rightarrow> Inl e | Inr ci \<Rightarrow>
      case subscript (rd_check_out d) ''check_out'' of Inl e \<Rightarrow> Inl e | Inr co \<Rightarrow>
      Inr (Reservation rid cid hid ci co))"

section \<open>Record stores\<close>

text \<open>
  A store file is missing, or cannot be read or parsed (\<^verbatim>\<open>OSError\<close>,
  \<^verbatim>\<open>JSONDecodeError\<close>), or holds a JSON object: the items of the parsed dictionary, in
  the order of the file. A Python dictionary is an association list here:
  \<^verbatim>\<open>d[k] = v\<close> is \<^const>\<open>AList.update\<close> (in place for a known key, at the end for a new
  one), \<^verbatim>\<open>del d[k]\<close> is \<^const>\<open>AList.delete\<close>, \<^verbatim>\<open>k in d\<close> is \<open>k \<in> fst ` set d\<close> and
  \<^verbatim>\<open>d[k]\<close> is \<^const>\<open>map_of\<close>.

  The items of a parsed JSON object have distinct keys, since \<^verbatim>\<open>json.load\<close> keeps one
  value per key; the theorems about files that are not written by the save functions
  assume it. A file whose top-level value is valid JSON but no object, on which
  \<^verbatim>\<open>data.items()\<close> raises an \<^verbatim>\<open>AttributeError\<close> that no handler catches, is not
  represented.

  Writing a file is taken to succeed; the \<^verbatim>\<open>OSError\<close> branch of the save functions,
  which prints and leaves the file to the file system, is not part of the model.
\<close>

datatype 'd backing = Missing | Unreadable | Content "(string \<times> 'd json_value) list"

text \<open>The lines a load prints.\<close>

datatype diagnostic = RecordError string py_error | FileError

text \<open>The loop of \<^verbatim>\<open>_load_customers\<close>: a record that raises is reported and skipped.\<close>

fun load_customers_loop ::
  "(string \<times> customer_dict json_value) list \<Rightarrow> (string \<times> customer) list \<times> diagnostic list
     \<Rightarrow> (string \<times> customer) list \<times> diagnostic list" where
  "load_customers_loop [] acc = acc"
| "load_customers_loop ((k, v) # items) (customers, out) =
     (case customer_from_dict v of
        Inr c \<Rightarrow> load_customers_loop items (AList.update k c customers, out)
      | Inl e \<Rightarrow> load_customers_loop items (customers, out @ [RecordError k e]))"

fun load_customers :: "customer_dict backing \<Rightarrow> (string \<times> customer) list \<times> diagnostic list" where
  "load_customers Missing = ([], [])"
| "load_customers Unreadable = ([], [FileError])"
| "load_customers (Content items) = load_customers_loop items ([], [])"

definition save_customers :: "(string \<times> customer) list \<Rightarrow> customer_dict backing" where
  "save_customers customers = Content (map (\<lambda>(k, v). (k, customer_to_dict v)) customers)"

fun load_hotels_loop ::
  "(string \<times> hotel_dict json_value) list \<Rightarrow> (string \<times> hotel) list \<times> diagnostic list
     \<Rightarrow> (string \<times> hotel) list \<times> diagnostic list" where
  "load_hotels_loop [] acc = acc"
| "load_hotels_loop ((k, v) # items) (hotels, out) =
     (case hotel_from_dict v of
        Inr h \<Rightarrow> load_hotels_loop items (AList.update k h hotels, out)
      | Inl e \<Rightarrow> load_hotels_loop items (hotels, out @ [RecordError k e]))"

fun load_hotels :: "hotel_dict backing \<Rightarrow> (string \<times> hotel) list \<times> diagnostic list" where
  "load_hotels Missing = ([], [])"
| "load_hotels Unreadable = ([], [FileError])"
| "load_hotels (Content items) = load_hotels_loop items ([], [])"

definition save_hotels :: "(string \<times> hotel) list \<Rightarrow> hotel_dict backing" where
  "save_hotels hotels = Content (map (\<lambda>(k, v). (k, hotel_to_dict v)) hotels)"

fun load_reservations_loop ::
  "(string \<times> reservation_dict json_value) list \<Rightarrow> (string \<times> reservation) list \<times> diagnostic list
     \<Rightarrow> (string \<times> reservation) list \<times> diagnostic list" where
  "load_reservations_loop [] acc = acc"
| "load_reservations_loop ((k, v) # items) (rs, out) =
     (case reservation_from_dict v of
        Inr r \<Rightarrow> load_reservations_loop items (AList.update k r rs, out)
      | Inl e \<Rightarrow> load_reservations_loop items (rs, out @ [RecordError k e]))"

fun load_reservations ::
  "reservation_dict backing \<Rightarrow> (string \<times> reservation) list \<times> diagnostic list" where
  "load_reservations Missing = ([], [])"
| "load_reservations Unreadable = ([], [FileError])"
| "load_reservations (Content items) = load_reservations_loop items ([], [])"

definition save_reservations :: "(string \<times> reservation) list \<Rightarrow> reservation_dict backing" where
  "save_reservations rs = Content (map (\<lambda>(k, v). (k, reservation_to_dict v)) rs)"

section \<open>Operations\<close>

text \<open>
  Each operation is one read-modify-write cycle: it loads the store files it needs,
  changes one entry and saves the whole dictionary. An operation that gives up returns
  \<^verbatim>\<open>False\<close> or \<^verbatim>\<open>None\<close> after printing one line; the line is the failure here:
  \<^item> \<open>HotelNotFound\<close>: \<^verbatim>\<open>Hotel '...' not found.\<close>
  \<^item> \<open>HotelExists\<close>: \<^verbatim>\<open>Hotel '...' already exists.\<close>
  \<^item> \<open>NoAvailability\<close>: \<^verbatim>\<open>No available rooms in hotel '...'.\<close>
  \<^item> \<open>ReservationNotOnRecord\<close>: \<^verbatim>\<open>Reservation '...' not found in hotel '...'.\<close>
  \<^item> \<open>CustomerExists\<close>: \<^verbatim>\<open>Customer '...' already exists.\<close>
  \<^item> \<open>CustomerNotFound\<close>: \<^verbatim>\<open>Customer '...' not found. Cannot create reservation.\<close>
  \<^item> \<open>AlreadyExists\<close>: \<^verbatim>\<open>Reservation '...' already exists.\<close>
  \<^item> \<open>NotFound\<close>: \<^verbatim>\<open>Reservation '...' not found.\<close>
  A failing branch returns the file it was given, since it returns before any save.
\<close>

datatype failure =
    HotelNotFound | HotelExists | NoAvailability | ReservationNotOnRecord
  | CustomerExists | CustomerNotFound | AlreadyExists | NotFound

subsection \<open>Hotel\<close>

definition create_hotel ::
  "string \<Rightarrow> string \<Rightarrow> string \<Rightarrow> int \<Rightarrow> hotel_dict backing \<Rightarrow> (failure + hotel) \<times> hotel_dict backing" where
  "create_hotel hid nm loc rooms file =
     (let hotels = fst (load_hotels file) in
      if hid \<in> fst ` set hotels then (Inl HotelExists, file)
      else let hotel = Hotel hid nm loc rooms;
               hotels = AList.update hid hotel hotels
           in (Inr hotel, save_hotels hotels))"

text \<open>
  The keyword arguments of \<^verbatim>\<open>modify_hotel\<close> default to \<^verbatim>\<open>None\<close>. \<^verbatim>\<open>if name:\<close> holds
  for a string that is neither \<^verbatim>\<open>None\<close> nor empty, \<^verbatim>\<open>if total_rooms is not None:\<close>
  for every integer, 0 included. \<open>apply_changes\<close> is the three conditional assignments
  to the attributes of the hotel object, in the order of the source.
\<close>

definition apply_changes :: "string option \<Rightarrow> string option \<Rightarrow> int option \<Rightarrow> hotel \<Rightarrow> hotel" where
  "apply_changes new_name new_location new_total hotel =
     (let hotel = (case new_name of
                     None \<Rightarrow> hotel
                   | Some nm \<Rightarrow> if nm \<noteq> [] then hotel\<lparr>name := nm\<rparr> else hotel);
          hotel = (case new_location of
                     None \<Rightarrow> hotel
                   | Some loc \<Rightarrow> if loc \<noteq> [] then hotel\<lparr>location := loc\<rparr> else hotel)
      in case new_total of
           None \<Rightarrow> hotel
         | Some rooms \<Rightarrow>
             (let diff = rooms - total_rooms hotel;
                  hotel = hotel\<lparr>total_rooms := rooms\<rparr>
              in hotel\<lparr>available_rooms := max 0 (available_rooms hotel + diff)\<rparr>))"

definition modify_hotel ::
  "string \<Rightarrow> string option \<Rightarrow> string option \<Rightarrow> int option \<Rightarrow> hotel_dict backing
     \<Rightarrow> (failure + unit) \<times> hotel_dict backing" where
  "modify_hotel hid new_name new_location new_total file =
     (let hotels = fst (load_hotels file) in
      case map_of hotels hid of
        None \<Rightarrow> (Inl HotelNotFound, file)
      | Some hotel \<Rightarrow>
          (let hotel = apply_changes new_name new_location new_total hotel
           in (Inr (), save_hotels (AList.update hid hotel hotels))))"

definition delete_hotel :: "string \<Rightarrow> hotel_dict backing \<Rightarrow> (failure + unit) \<times> hotel_dict backing" where
  "delete_hotel hid file =
     (let hotels = fst (load_hotels file) in
      if hid \<notin> fst ` set hotels then (Inl HotelNotFound, file)
      else (Inr (), save_hotels (AList.delete hid hotels)))"

text \<open>\<^verbatim>\<open>display_hotel\<close> returns the stored hotel, or \<^verbatim>\<open>None\<close>; what it prints is left out.\<close>

definition display_hotel :: "string \<Rightarrow> hotel_dict backing \<Rightarrow> hotel option" where
  "display_hotel hid file = map_of (fst (load_hotels file)) hid"

definition reserve_room ::
  "string \<Rightarrow> string \<Rightarrow> hotel_dict backing \<Rightarrow> (failure + unit) \<times> hotel_dict backing" where
  "reserve_room hid rid file =
     (let hotels = fst (load_hotels file) in
      case map_of hotels hid of
        None \<Rightarrow> (Inl HotelNotFound, file)
      | Some hotel \<Rightarrow>
          if available_rooms hotel \<le> 0 then (Inl NoAvailability, file)
          else let hotel = hotel\<lparr>available_rooms := available_rooms hotel - 1\<rparr>;
                   hotel = hotel\<lparr>reservations := reservations hotel @ [rid]\<rparr>
               in (Inr (), save_hotels (AList.update hid hotel hotels)))"

text \<open>\<^verbatim>\<open>list.remove\<close> deletes the first occurrence: \<^const>\<open>remove1\<close>.\<close>

definition cancel_room ::
  "string \<Rightarrow> string \<Rightarrow> hotel_dict backing \<Rightarrow> (failure + unit) \<times> hotel_dict backing" where
  "cancel_room hid rid file =
     (let hotels = fst (load_hotels file) in
      case map_of hotels hid of
        None \<Rightarrow> (Inl HotelNotFound, file)
      | Some hotel \<Rightarrow>
          if rid \<notin> set (reservations hotel) then (Inl ReservationNotOnRecord, file)
          else let hotel = hotel\<lparr>reservations := remove1 rid (reservations hotel)\<rparr>;
                   hotel = hotel\<lparr>available_rooms :=
                             min (total_rooms hotel) (available_rooms hotel + 1)\<rparr>
               in (Inr (), save_hotels (AList.update hid hotel hotels)))"

subsection \<open>Customer\<close>

definition create_customer ::
  "string \<Rightarrow> string \<Rightarrow> string \<Rightarrow> string \<Rightarrow> customer_dict backing
     \<Rightarrow> (failure + customer) \<times> customer_dict backing" where
  "create_customer cid nm em ph file =
     (let customers = fst (load_customers file) in
      if cid \<in> fst ` set customers then (Inl CustomerExists, file)
      else let c = Customer cid nm em ph;
               customers = AList.update cid c customers
           in (Inr c, save_customers customers))"

definition display_customer :: "string \<Rightarrow> customer_dict backing \<Rightarrow> customer option" where
  "display_customer cid file = map_of (fst (load_customers file)) cid"

subsection \<open>Reservation\<close>

text \<open>The three files \<^verbatim>\<open>hotels.json\<close>, \<^verbatim>\<open>customers.json\<close> and \<^verbatim>\<open>reservations.json\<close>.\<close>

record world =
  hotels_file :: "hotel_dict backing"
  customers_file :: "customer_dict backing"
  reservations_file :: "reservation_dict backing"

definition create_reservation ::
  "string \<Rightarrow> string \<Rightarrow> string \<Rightarrow> string \<Rightarrow> string \<Rightarrow> world \<Rightarrow> (failure + reservation) \<times> world" where
  "create_reservation rid cid hid ci co w =
     (let rs = fst (load_reservations (reservations_file w)) in
      if rid \<in> fst ` set rs then (Inl AlreadyExists, w)
      else let customers = fst (load_customers (customers_file w)) in
      if cid \<notin> fst ` set customers then (Inl CustomerNotFound, w)
      else case reserve_room hid rid (hotels_file w) of
        (Inl e, hfile) \<Rightarrow> (Inl e, w\<lparr>hotels_file := hfile\<rparr>)
      | (Inr _, hfile) \<Rightarrow>
          (let r = Reservation rid cid hid ci co;
               rs = AList.update rid r rs
           in (Inr r, w\<lparr>hotels_file := hfile, reservations_file := save_reservations rs\<rparr>)))"

text \<open>The result of \<^verbatim>\<open>Hotel.cancel_room\<close> is dropped: only its effect on the hotel file
  is kept.\<close>

definition cancel_reservation :: "string \<Rightarrow> world \<Rightarrow> (failure + unit) \<times> world" where
  "cancel_reservation rid w =
     (let rs = fst (load_reservations (reservations_file w)) in
      case map_of rs rid of
        None \<Rightarrow> (Inl NotFound, w)
      | Some r \<Rightarrow>
          (let hfile = snd (cancel_room (res_hotel_id r) rid (hotels_file w));
               rs = AList.delete rid rs
           in (Inr (), w\<lparr>hotels_file := hfile, reservations_file := save_reservations rs\<rparr>)))"

definition display_reservation :: "string \<Rightarrow> world \<Rightarrow> reservation option" where
  "display_reservation rid w = map_of (fst (load_reservations (reservations_file w))) rid"

section \<open>Bookkeeping\<close>

text \<open>The room count of a hotel matches its occupant list.\<close>

definition room_count_matches :: "hotel \<Rightarrow> bool" where
  "room_count_matches h \<longleftrightarrow>
     available_rooms h = total_rooms h - int (length (reservations h))"

text \<open>The availability of a hotel lies between 0 and its total.\<close>

definition within_bounds :: "hotel \<Rightarrow> bool" where
  "within_bounds h \<longleftrightarrow> 0 \<le> available_rooms h \<and> available_rooms h \<le> total_rooms h"

text \<open>
  A hotel store and a reservation store, each as the lookup of its identifiers, agree:
  every reservation record names a stored hotel that lists it, every identifier a hotel
  lists has a record naming that hotel, no hotel lists an identifier twice, and the room
  count of every hotel matches its list.
\<close>

definition agree :: "(string \<rightharpoonup> hotel) \<Rightarrow> (string \<rightharpoonup> reservation) \<Rightarrow> bool" where
  "agree H R \<longleftrightarrow>
     (\<forall>rid r. R rid = Some r \<longrightarrow>
        (\<exists>h. H (res_hotel_id r) = Some h \<and> rid \<in> set (reservations h))) \<and>
     (\<forall>hid h. H hid = Some h \<longrightarrow>
        room_count_matches h \<and> distinct (reservations h) \<and>
        (\<forall>rid \<in> set (reservations h). \<exists>r. R rid = Some r \<and> res_hotel_id r = hid))"

definition consistent :: "world \<Rightarrow> bool" where
  "consistent w \<longleftrightarrow>
     agree (\<lambda>hid. display_hotel hid (hotels_file w)) (\<lambda>rid. display_reservation rid w)"

section \<open>Reachable states\<close>

text \<open>Before the first call no file exists.\<close>

definition blank :: world where
  "blank = \<lparr>hotels_file = Missing, customers_file = Missing, reservations_file = Missing\<rparr>"

text \<open>
  The worlds that calls of \<^const>\<open>create_hotel\<close>, \<^const>\<open>create_customer\<close>,
  \<^const>\<open>create_reservation\<close> and \<^const>\<open>cancel_reservation\<close> build from nothing, whatever
  their arguments and whether they succeed or not.
\<close>

inductive reachable :: "world \<Rightarrow> bool" where
  start: "reachable blank"
| new_hotel:
    "reachable w \<Longrightarrow>
     reachable (w\<lparr>hotels_file := snd (create_hotel hid nm loc rooms (hotels_file w))\<rparr>)"
| new_customer:
    "reachable w \<Longrightarrow>
     reachable (w\<lparr>customers_file := snd (create_customer cid nm em ph (customers_file w))\<rparr>)"
| book: "reachable w \<Longrightarrow> reachable (snd (create_reservation rid cid hid ci co w))"
| cancel: "reachable w \<Longrightarrow> reachable (snd (cancel_reservation rid w))"

text \<open>
  The hotel files that the four mutations of hotel.py build from nothing when every
  room total handed to them is at least 0.
\<close>

fun non_negative :: "int option \<Rightarrow> bool" where
  "non_negative None = True"
| "non_negative (Some n) = (0 \<le> n)"

inductive hotels_reachable :: "hotel_dict backing \<Rightarrow> bool" where
  no_file: "hotels_reachable Missing"
| created:
    "hotels_reachable f \<Longrightarrow> 0 \<le> rooms \<Longrightarrow>
     hotels_reachable (snd (create_hotel hid nm loc rooms f))"
| modified:
    "hotels_reachable f \<Longrightarrow> non_negative new_total \<Longrightarrow>
     hotels_reachable (snd (modify_hotel hid new_name new_location new_total f))"
| reserved: "hotels_reachable f \<Longrightarrow> hotels_reachable (snd (reserve_room hid rid f))"
| cancelled: "hotels_reachable f \<Longrightarrow> hotels_reachable (snd (cancel_room hid rid f))"

section \<open>Loading\<close>

text \<open>
  The records are the items read one by one: same keys, same order, each record what
  \<^verbatim>\<open>from_dict\<close> returns for the item's value.
\<close>

definition loads_as ::
  "('d json_value \<Rightarrow> py_error + 'a) \<Rightarrow> (string \<times> 'd json_value) list \<Rightarrow> (string \<times> 'a) list \<Rightarrow> bool" where
  "loads_as from_dict items records \<longleftrightarrow>
     list_all2 (\<lambda>(k, v) (k', x). k' = k \<and> from_dict v = Inr x) items records"

section \<open>Example states\<close>

text \<open>A hotel file with the one-room hotel H1, and the same after one booking: H1 is
  full, and no other hotel exists.\<close>

definition tiny_hotel :: "hotel_dict backing" where
  "tiny_hotel = snd (create_hotel ''H1'' ''Tiny Hotel'' ''NYC'' 1 Missing)"

definition full_house :: "hotel_dict backing" where
  "full_house = snd (reserve_room ''H1'' ''R1'' tiny_hotel)"

text \<open>The total of the full hotel is cut to 0 and raised to 1 again: the occupant
  R1 stays on the list, and yet a room is on offer.\<close>

definition regrown :: "hotel_dict backing" where
  "regrown =
     snd (modify_hotel ''H1'' None None (Some 1)
       (snd (modify_hotel ''H1'' None None (Some 0) full_house)))"

text \<open>A hotel file with the two-room hotel H2.\<close>

definition two_rooms :: "hotel_dict backing" where
  "two_rooms = snd (create_hotel ''H2'' ''Grand Inn'' ''NYC'' 2 Missing)"

text \<open>The world of the reservation tests: hotel H1 with one room and customer C1; then
  the same after C1 has booked the room as R1; then the latter after H1 was deleted.\<close>

definition ready :: world where
  "ready =
     blank\<lparr>hotels_file := tiny_hotel,
           customers_file :=
             snd (create_customer ''C1'' ''Alice'' ''alice@mail.com'' ''555-1234'' Missing)\<rparr>"

definition booked :: world where
  "booked = snd (create_reservation ''R1'' ''C1'' ''H1'' ''2024-01-01'' ''2024-01-05'' ready)"

definition orphaned :: world where
  "orphaned = booked\<lparr>hotels_file := snd (delete_hotel ''H1'' (hotels_file booked))\<rparr>"

text \<open>
  Values found in store files: a hotel object with the four required keys only, a hotel
  object without \<^verbatim>\<open>name\<close>, and an object with none of the keys the code reads, such as
  \<^verbatim>\<open>{"bad_key": "bad_value"}\<close> of the tests.
\<close>

definition minimal_hotel :: "hotel_dict json_value" where
  "minimal_hotel = Object
     \<lparr>hd_hotel_id = Some ''H3'', hd_name = Some ''Annex'', hd_location = Some ''LA'',
      hd_total_rooms = Some 5, hd_available_rooms = None, hd_reservations = None\<rparr>"

definition nameless_hotel :: "hotel_dict json_value" where
  "nameless_hotel = Object
     \<lparr>hd_hotel_id = Some ''H2'', hd_name = None, hd_location = Some ''LA'',
      hd_total_rooms = Some 5, hd_available_rooms = Some 5, hd_reservations = Some []\<rparr>"

definition stray_reservation :: "reservation_dict json_value" where
  "stray_reservation = Object
     \<lparr>rd_reservation_id = None, rd_customer_id = None, rd_hotel_id = None,
      rd_check_in = None, rd_check_out = None\<rparr>"

definition alice :: customer where
  "alice = Customer ''C1'' ''Alice'' ''alice@mail.com'' ''555-1234''"

definition bob :: customer where
  "bob = Customer ''C2'' ''Bob'' ''bob@mail.com'' ''555-5678''"

definition stay :: "string \<Rightarrow> reservation" where
  "stay rid = Reservation rid ''C1'' ''H1'' ''2024-01-01'' ''2024-01-05''"

section \<open>Saving and loading again\<close>

lemma hotel_round_trip: "hotel_from_dict (hotel_to_dict h) = Inr h"
  by (simp add: hotel_to_dict_def subscript_def get_default_def Hotel_def)

lemma customer_round_trip: "customer_from_dict (customer_to_dict c) = Inr c"
  by (simp add: customer_to_dict_def subscript_def Customer_def)

lemma reservation_round_trip: "reservation_from_dict (reservation_to_dict r) = Inr r"
  by (simp add: reservation_to_dict_def subscript_def Reservation_def)

text \<open>Assigning to a key the dictionary does not have puts the item at the end.\<close>

lemma update_fresh: "k \<notin> fst ` set al \<Longrightarrow> AList.update k v al = al @ [(k, v)]"
  by (induction al) auto

subsection \<open>Hotels\<close>

lemma load_hotels_loop_saved:
  "distinct (map fst hs) \<Longrightarrow> fst ` set hs \<inter> fst ` set acc = {} \<Longrightarrow>
   load_hotels_loop (map (\<lambda>(k, v). (k, hotel_to_dict v)) hs) (acc, out) = (acc @ hs, out)"
proof (induction hs arbitrary: acc)
  case Nil
  then show ?case by simp
next
  case (Cons p hs)
  obtain k h where p: "p = (k, h)" by (cases p)
  from Cons.prems have fresh: "k \<notin> fst ` set acc" and d: "distinct (map fst hs)"
    and disj: "fst ` set hs \<inter> fst ` set (acc @ [(k, h)]) = {}"
    by (auto simp: p)
  show ?case
    using Cons.IH [OF d disj] fresh
    by (simp add: p hotel_round_trip update_fresh)
qed

lemma load_save_hotels: "distinct (map fst hs) \<Longrightarrow> load_hotels (save_hotels hs) = (hs, [])"
  using load_hotels_loop_saved [of hs "[]" "[]"] by (simp add: save_hotels_def)

lemma load_hotels_loop_distinct:
  "distinct (map fst (fst acc)) \<Longrightarrow> distinct (map fst (fst (load_hotels_loop items acc)))"
  by (induction items acc rule: load_hotels_loop.induct)
     (auto simp: distinct_update split: sum.splits)

lemma load_hotels_distinct: "distinct (map fst (fst (load_hotels f)))"
  by (cases f) (simp_all add: load_hotels_loop_distinct)

lemma display_hotel_saved:
  "distinct (map fst hs) \<Longrightarrow> display_hotel k (save_hotels hs) = map_of hs k"
  by (simp add: display_hotel_def load_save_hotels)

lemma display_hotel_updated:
  "display_hotel k (save_hotels (AList.update hid h (fst (load_hotels f)))) =
     (if k = hid then Some h else display_hotel k f)"
  by (simp add: display_hotel_saved distinct_update load_hotels_distinct update_conv')
     (simp add: display_hotel_def)

subsection \<open>Customers\<close>

lemma load_customers_loop_saved:
  "distinct (map fst cs) \<Longrightarrow> fst ` set cs \<inter> fst ` set acc = {} \<Longrightarrow>
   load_customers_loop (map (\<lambda>(k, v). (k, customer_to_dict v)) cs) (acc, out) = (acc @ cs, out)"
proof (induction cs arbitrary: acc)
  case Nil
  then show ?case by simp
next
  case (Cons p cs)
  obtain k c where p: "p = (k, c)" by (cases p)
  from Cons.prems have fresh: "k \<notin> fst ` set acc" and d: "distinct (map fst cs)"
    and disj: "fst ` set cs \<inter> fst ` set (acc @ [(k, c)]) = {}"
    by (auto simp: p)
  show ?case
    using Cons.IH [OF d disj] fresh
    by (simp add: p customer_round_trip update_fresh)
qed

lemma load_save_customers:
  "distinct (map fst cs) \<Longrightarrow> load_customers (save_customers cs) = (cs, [])"
  using load_customers_loop_saved [of cs "[]" "[]"] by (simp add: save_customers_def)

lemma load_customers_loop_distinct:
  "distinct (map fst (fst acc)) \<Longrightarrow> distinct (map fst (fst (load_customers_loop items acc)))"
  by (induction items acc rule: load_customers_loop.induct)
     (auto simp: distinct_update split: sum.splits)

lemma load_customers_distinct: "distinct (map fst (fst (load_customers f)))"
  by (cases f) (simp_all add: load_customers_loop_distinct)

subsection \<open>Reservations\<close>

lemma load_reservations_loop_saved:
  "distinct (map fst rs) \<Longrightarrow> fst ` set rs \<inter> fst ` set acc = {} \<Longrightarrow>
   load_reservations_loop (map (\<lambda>(k, v). (k, reservation_to_dict v)) rs) (acc, out)
     = (acc @ rs, out)"
proof (induction rs arbitrary: acc)
  case Nil
  then show ?case by simp
next
  case (Cons p rs)
  obtain k r where p: "p = (k, r)" by (cases p)
  from Cons.prems have fresh: "k \<notin> fst ` set acc" and d: "distinct (map fst rs)"
    and disj: "fst ` set rs \<inter> fst ` set (acc @ [(k, r)]) = {}"
    by (auto simp: p)
  show ?case
    using Cons.IH [OF d disj] fresh
    by (simp add: p reservation_round_trip update_fresh)
qed

lemma load_save_reservations:
  "distinct (map fst rs) \<Longrightarrow> load_reservations (save_reservations rs) = (rs, [])"
  using load_reservations_loop_saved [of rs "[]" "[]"] by (simp add: save_reservations_def)

lemma load_reservations_loop_distinct:
  "distinct (map fst (fst acc)) \<Longrightarrow>
   distinct (map fst (fst (load_reservations_loop items acc)))"
  by (induction items acc rule: load_reservations_loop.induct)
     (auto simp: distinct_update split: sum.splits)

lemma load_reservations_distinct: "distinct (map fst (fst (load_reservations f)))"
  by (cases f) (simp_all add: load_reservations_loop_distinct)

section \<open>What one call does to the hotel file\<close>

lemma reserve_room_absent:
  "display_hotel hid f = None \<Longrightarrow> reserve_room hid rid f = (Inl HotelNotFound, f)"
  by (simp add: reserve_room_def display_hotel_def)

lemma reserve_room_full:
  "display_hotel hid f = Some h \<Longrightarrow> available_rooms h \<le> 0 \<Longrightarrow>
   reserve_room hid rid f = (Inl NoAvailability, f)"
  by (simp add: reserve_room_def display_hotel_def)

lemma reserve_room_ok:
  "display_hotel hid f = Some h \<Longrightarrow> 0 < available_rooms h \<Longrightarrow>
   reserve_room hid rid f =
     (Inr (), save_hotels (AList.update hid
        (h\<lparr>available_rooms := available_rooms h - 1, reservations := reservations h @ [rid]\<rparr>)
        (fst (load_hotels f))))"
  by (simp add: reserve_room_def display_hotel_def)

lemma cancel_room_absent:
  "display_hotel hid f = None \<Longrightarrow> cancel_room hid rid f = (Inl HotelNotFound, f)"
  by (simp add: cancel_room_def display_hotel_def)

lemma cancel_room_unknown:
  "display_hotel hid f = Some h \<Longrightarrow> rid \<notin> set (reservations h) \<Longrightarrow>
   cancel_room hid rid f = (Inl ReservationNotOnRecord, f)"
  by (simp add: cancel_room_def display_hotel_def)

lemma cancel_room_ok:
  "display_hotel hid f = Some h \<Longrightarrow> rid \<in> set (reservations h) \<Longrightarrow>
   cancel_room hid rid f =
     (Inr (), save_hotels (AList.update hid
        (h\<lparr>reservations := remove1 rid (reservations h),
           available_rooms := min (total_rooms h) (available_rooms h + 1)\<rparr>)
        (fst (load_hotels f))))"
  by (simp add: cancel_room_def display_hotel_def)

lemma reserve_room_success_iff:
  "fst (reserve_room hid rid f) = Inr () \<longleftrightarrow>
     (\<exists>h. display_hotel hid f = Some h \<and> 0 < available_rooms h)"
  by (auto simp: reserve_room_def display_hotel_def Let_def split: option.splits)

lemma cancel_room_success_iff:
  "fst (cancel_room hid rid f) = Inr () \<longleftrightarrow>
     (\<exists>h. display_hotel hid f = Some h \<and> rid \<in> set (reservations h))"
  by (auto simp: cancel_room_def display_hotel_def Let_def split: option.splits)

lemma display_hotel_reserve_room:
  "display_hotel k (snd (reserve_room hid rid f)) =
     (case display_hotel hid f of
        None \<Rightarrow> display_hotel k f
      | Some h \<Rightarrow>
          if 0 < available_rooms h \<and> k = hid
          then Some (h\<lparr>available_rooms := available_rooms h - 1,
                       reservations := reservations h @ [rid]\<rparr>)
          else display_hotel k f)"
proof (cases "display_hotel hid f")
  case None
  then show ?thesis by (simp add: reserve_room_absent)
next
  case (Some h)
  then show ?thesis
    by (cases "0 < available_rooms h")
       (simp_all add: reserve_room_ok reserve_room_full display_hotel_updated)
qed

lemma display_hotel_cancel_room:
  "display_hotel k (snd (cancel_room hid rid f)) =
     (case display_hotel hid f of
        None \<Rightarrow> display_hotel k f
      | Some h \<Rightarrow>
          if rid \<in> set (reservations h) \<and> k = hid
          then Some (h\<lparr>reservations := remove1 rid (reservations h),
                       available_rooms := min (total_rooms h) (available_rooms h + 1)\<rparr>)
          else display_hotel k f)"
proof (cases "display_hotel hid f")
  case None
  then show ?thesis by (simp add: cancel_room_absent)
next
  case (Some h)
  then show ?thesis
    by (cases "rid \<in> set (reservations h)")
       (simp_all add: cancel_room_ok cancel_room_unknown display_hotel_updated)
qed

lemma display_hotel_create_hotel:
  "display_hotel k (snd (create_hotel hid nm loc rooms f)) =
     (if display_hotel hid f = None \<and> k = hid then Some (Hotel hid nm loc rooms)
      else display_hotel k f)"
proof (cases "display_hotel hid f")
  case None
  then have "hid \<notin> fst ` set (fst (load_hotels f))"
    by (simp add: display_hotel_def map_of_eq_None_iff)
  with None show ?thesis
    by (simp add: create_hotel_def Let_def display_hotel_updated)
next
  case (Some h)
  then have "hid \<in> fst ` set (fst (load_hotels f))"
    by (metis display_hotel_def map_of_eq_None_iff option.distinct(1))
  with Some show ?thesis
    by (simp add: create_hotel_def)
qed

lemma modify_hotel_absent:
  "display_hotel hid f = None \<Longrightarrow>
   modify_hotel hid new_name new_location new_total f = (Inl HotelNotFound, f)"
  by (simp add: modify_hotel_def display_hotel_def)

lemma modify_hotel_ok:
  "display_hotel hid f = Some h \<Longrightarrow>
   modify_hotel hid new_name new_location new_total f =
     (Inr (), save_hotels (AList.update hid (apply_changes new_name new_location new_total h)
        (fst (load_hotels f))))"
  by (simp add: modify_hotel_def display_hotel_def)

lemma display_hotel_modify_hotel:
  "display_hotel k (snd (modify_hotel hid new_name new_location new_total f)) =
     (case display_hotel hid f of
        None \<Rightarrow> display_hotel k f
      | Some h \<Rightarrow>
          if k = hid then Some (apply_changes new_name new_location new_total h)
          else display_hotel k f)"
  by (cases "display_hotel hid f")
     (simp_all add: modify_hotel_absent modify_hotel_ok display_hotel_updated)

lemma apply_changes_rooms:
  "total_rooms (apply_changes new_name new_location new_total h) =
     (case new_total of None \<Rightarrow> total_rooms h | Some rooms \<Rightarrow> rooms)"
  "available_rooms (apply_changes new_name new_location new_total h) =
     (case new_total of
        None \<Rightarrow> available_rooms h
      | Some rooms \<Rightarrow> max 0 (available_rooms h + (rooms - total_rooms h)))"
  "reservations (apply_changes new_name new_location new_total h) = reservations h"
  by (simp_all add: apply_changes_def Let_def split: option.splits)

lemma within_bounds_apply_changes:
  "within_bounds h \<Longrightarrow> non_negative new_total \<Longrightarrow>
   within_bounds (apply_changes new_name new_location new_total h)"
  by (cases new_total) (auto simp: within_bounds_def apply_changes_rooms)

lemma within_bounds_reachable:
  "hotels_reachable f \<Longrightarrow> display_hotel k f = Some h \<Longrightarrow> within_bounds h"
proof (induction arbitrary: k h rule: hotels_reachable.induct)
  case no_file
  then show ?case by (simp add: display_hotel_def)
next
  case (created f rooms hid nm loc)
  then show ?case
    by (auto simp: display_hotel_create_hotel Hotel_def within_bounds_def split: if_splits)
next
  case (modified f new_total hid new_name new_location)
  then show ?case
    by (auto simp: display_hotel_modify_hotel within_bounds_apply_changes
             split: option.splits if_splits)
next
  case (reserved f hid rid)
  then show ?case
    by (fastforce simp: display_hotel_reserve_room within_bounds_def
                 split: option.splits if_splits)
next
  case (cancelled f hid rid)
  then show ?case
    by (fastforce simp: display_hotel_cancel_room within_bounds_def
                 split: option.splits if_splits)
qed

section \<open>What one call does to the reservation file\<close>

lemma stored_reservation_updated:
  "map_of (fst (load_reservations (save_reservations
       (AList.update rid r (fst (load_reservations f)))))) k =
     (if k = rid then Some r else map_of (fst (load_reservations f)) k)"
  by (simp add: load_save_reservations distinct_update load_reservations_distinct update_conv')

lemma stored_reservation_deleted:
  "map_of (fst (load_reservations (save_reservations
       (AList.delete rid (fst (load_reservations f)))))) k =
     (if k = rid then None else map_of (fst (load_reservations f)) k)"
  by (simp add: load_save_reservations distinct_delete load_reservations_distinct delete_conv')

lemma create_reservation_exists:
  "display_reservation rid w = Some r \<Longrightarrow>
   create_reservation rid cid hid ci co w = (Inl AlreadyExists, w)"
proof -
  assume "display_reservation rid w = Some r"
  then have "rid \<in> fst ` set (fst (load_reservations (reservations_file w)))"
    by (metis display_reservation_def map_of_eq_None_iff option.distinct(1))
  then show ?thesis by (simp add: create_reservation_def)
qed

lemma create_reservation_no_customer:
  "display_reservation rid w = None \<Longrightarrow> display_customer cid (customers_file w) = None \<Longrightarrow>
   create_reservation rid cid hid ci co w = (Inl CustomerNotFound, w)"
  by (simp add: create_reservation_def display_reservation_def display_customer_def
                map_of_eq_None_iff)

lemma create_reservation_no_room:
  "display_reservation rid w = None \<Longrightarrow> display_customer cid (customers_file w) = Some c \<Longrightarrow>
   reserve_room hid rid (hotels_file w) = (Inl e, hfile) \<Longrightarrow>
   create_reservation rid cid hid ci co w = (Inl e, w\<lparr>hotels_file := hfile\<rparr>)"
proof -
  assume a: "display_reservation rid w = None"
    and b: "display_customer cid (customers_file w) = Some c"
    and c: "reserve_room hid rid (hotels_file w) = (Inl e, hfile)"
  from a have 1: "rid \<notin> fst ` set (fst (load_reservations (reservations_file w)))"
    by (simp add: display_reservation_def map_of_eq_None_iff)
  from b have 2: "cid \<in> fst ` set (fst (load_customers (customers_file w)))"
    by (metis display_customer_def map_of_eq_None_iff option.distinct(1))
  from 1 2 c show ?thesis by (simp add: create_reservation_def)
qed

lemma create_reservation_ok:
  "display_reservation rid w = None \<Longrightarrow> display_customer cid (customers_file w) = Some c \<Longrightarrow>
   reserve_room hid rid (hotels_file w) = (Inr u, hfile) \<Longrightarrow>
   create_reservation rid cid hid ci co w =
     (Inr (Reservation rid cid hid ci co),
      w\<lparr>hotels_file := hfile,
        reservations_file := save_reservations
          (AList.update rid (Reservation rid cid hid ci co)
             (fst (load_reservations (reservations_file w))))\<rparr>)"
proof -
  assume a: "display_reservation rid w = None"
    and b: "display_customer cid (customers_file w) = Some c"
    and c: "reserve_room hid rid (hotels_file w) = (Inr u, hfile)"
  from a have 1: "rid \<notin> fst ` set (fst (load_reservations (reservations_file w)))"
    by (simp add: display_reservation_def map_of_eq_None_iff)
  from b have 2: "cid \<in> fst ` set (fst (load_customers (customers_file w)))"
    by (metis display_customer_def map_of_eq_None_iff option.distinct(1))
  from 1 2 c show ?thesis by (simp add: create_reservation_def Let_def)
qed

lemma reserve_room_failure_keeps_file:
  "reserve_room hid rid f = (Inl e, hfile) \<Longrightarrow> hfile = f"
  by (auto simp: reserve_room_def Let_def split: option.splits if_splits)

lemma cancel_reservation_absent:
  "display_reservation rid w = None \<Longrightarrow> cancel_reservation rid w = (Inl NotFound, w)"
  by (simp add: cancel_reservation_def display_reservation_def)

lemma cancel_reservation_ok:
  "display_reservation rid w = Some r \<Longrightarrow>
   cancel_reservation rid w =
     (Inr (),
      w\<lparr>hotels_file := snd (cancel_room (res_hotel_id r) rid (hotels_file w)),
        reservations_file := save_reservations
          (AList.delete rid (fst (load_reservations (reservations_file w))))\<rparr>)"
  by (simp add: cancel_reservation_def display_reservation_def Let_def)

section \<open>Loading valid records\<close>

lemma loads_as_keys: "loads_as fd items records \<Longrightarrow> map fst records = map fst items"
  unfolding loads_as_def
  by (induction items records rule: list_all2_induct) auto

lemma loads_as_length: "loads_as fd items records \<Longrightarrow> length records = length items"
  by (simp add: loads_as_def list_all2_lengthD)

lemma loads_as_append:
  "loads_as fd xs hs \<Longrightarrow> loads_as fd ys hs' \<Longrightarrow> loads_as fd (xs @ ys) (hs @ hs')"
  by (simp add: loads_as_def list_all2_appendI)

lemma load_hotels_loop_append:
  "load_hotels_loop (xs @ ys) acc = load_hotels_loop ys (load_hotels_loop xs acc)"
  by (induction xs acc rule: load_hotels_loop.induct) (auto split: sum.splits)

lemma load_hotels_loop_valid:
  "distinct (map fst items) \<Longrightarrow> fst ` set items \<inter> fst ` set acc = {} \<Longrightarrow>
   \<forall>p \<in> set items. \<not> isl (hotel_from_dict (snd p)) \<Longrightarrow>
   \<exists>hs. load_hotels_loop items (acc, out) = (acc @ hs, out) \<and> loads_as hotel_from_dict items hs"
proof (induction items arbitrary: acc)
  case Nil
  then show ?case by (simp add: loads_as_def)
next
  case (Cons p items)
  obtain k v where p: "p = (k, v)" by (cases p)
  from Cons.prems(3) obtain h where h: "hotel_from_dict v = Inr h"
    by (cases "hotel_from_dict v") (auto simp: p)
  from Cons.prems have fresh: "k \<notin> fst ` set acc" and d: "distinct (map fst items)"
    and disj: "fst ` set items \<inter> fst ` set (acc @ [(k, h)]) = {}"
    and v: "\<forall>p \<in> set items. \<not> isl (hotel_from_dict (snd p))"
    by (auto simp: p)
  from Cons.IH [OF d disj v] obtain hs where
    hs: "load_hotels_loop items (acc @ [(k, h)], out) = ((acc @ [(k, h)]) @ hs, out)"
      "loads_as hotel_from_dict items hs"
    by blast
  have "load_hotels_loop (p # items) (acc, out) = (acc @ ((k, h) # hs), out)"
    using hs(1) fresh by (simp add: p h update_fresh)
  moreover have "loads_as hotel_from_dict (p # items) ((k, h) # hs)"
    using hs(2) by (simp add: loads_as_def p h)
  ultimately show ?case by blast
qed

lemma one_bad_hotel:
  assumes d: "distinct (map fst (xs @ (k, bad) # ys))"
    and bad: "hotel_from_dict bad = Inl e"
    and valid: "\<forall>p \<in> set (xs @ ys). \<not> isl (hotel_from_dict (snd p))"
  shows "\<exists>hs. load_hotels (Content (xs @ (k, bad) # ys)) = (hs, [RecordError k e]) \<and>
           loads_as hotel_from_dict (xs @ ys) hs \<and> length hs = length xs + length ys"
proof -
  from d valid obtain hs1 where 1: "load_hotels_loop xs ([], []) = (hs1, [])"
      and l1: "loads_as hotel_from_dict xs hs1"
    using load_hotels_loop_valid [of xs "[]" "[]"] by auto
  have keys1: "map fst hs1 = map fst xs" using l1 by (rule loads_as_keys)
  have "fst ` set hs1 = fst ` set xs"
    using keys1 by (metis image_set)
  moreover have "fst ` set ys \<inter> fst ` set xs = {}"
    using d by auto
  ultimately have "fst ` set ys \<inter> fst ` set hs1 = {}" by simp
  with d valid obtain hs2 where
      2: "load_hotels_loop ys (hs1, [RecordError k e]) = (hs1 @ hs2, [RecordError k e])"
      and l2: "loads_as hotel_from_dict ys hs2"
    using load_hotels_loop_valid [of ys hs1 "[RecordError k e]"] by auto
  have "load_hotels (Content (xs @ (k, bad) # ys)) = (hs1 @ hs2, [RecordError k e])"
    by (simp add: load_hotels_loop_append 1 bad 2)
  moreover have "loads_as hotel_from_dict (xs @ ys) (hs1 @ hs2)"
    using l1 l2 by (rule loads_as_append)
  moreover have "length (hs1 @ hs2) = length xs + length ys"
    using l1 l2 by (simp add: loads_as_length)
  ultimately show ?thesis by blast
qed

lemma load_customers_loop_append:
  "load_customers_loop (xs @ ys) acc = load_customers_loop ys (load_customers_loop xs acc)"
  by (induction xs acc rule: load_customers_loop.induct) (auto split: sum.splits)

lemma load_customers_loop_valid:
  "distinct (map fst items) \<Longrightarrow> fst ` set items \<inter> fst ` set acc = {} \<Longrightarrow>
   \<forall>p \<in> set items. \<not> isl (customer_from_dict (snd p)) \<Longrightarrow>
   \<exists>hs. load_customers_loop items (acc, out) = (acc @ hs, out) \<and> loads_as customer_from_dict items hs"
proof (induction items arbitrary: acc)
  case Nil
  then show ?case by (simp add: loads_as_def)
next
  case (Cons p items)
  obtain k v where p: "p = (k, v)" by (cases p)
  from Cons.prems(3) obtain h where h: "customer_from_dict v = Inr h"
    by (cases "customer_from_dict v") (auto simp: p)
  from Cons.prems have fresh: "k \<notin> fst ` set acc" and d: "distinct (map fst items)"
    and disj: "fst ` set items \<inter> fst ` set (acc @ [(k, h)]) = {}"
    and v: "\<forall>p \<in> set items. \<not> isl (customer_from_dict (snd p))"
    by (auto simp: p)
  from Cons.IH [OF d disj v] obtain hs where
    hs: "load_customers_loop items (acc @ [(k, h)], out) = ((acc @ [(k, h)]) @ hs, out)"
      "loads_as customer_from_dict items hs"
    by blast
  have "load_customers_loop (p # items) (acc, out) = (acc @ ((k, h) # hs), out)"
    using hs(1) fresh by (simp add: p h update_fresh)
  moreover have "loads_as customer_from_dict (p # items) ((k, h) # hs)"
    using hs(2) by (simp add: loads_as_def p h)
  ultimately show ?case by blast
qed

lemma one_bad_customer:
  assumes d: "distinct (map fst (xs @ (k, bad) # ys))"
    and bad: "customer_from_dict bad = Inl e"
    and valid: "\<forall>p \<in> set (xs @ ys). \<not> isl (customer_from_dict (snd p))"
  shows "\<exists>hs. load_customers (Content (xs @ (k, bad) # ys)) = (hs, [RecordError k e]) \<and>
           loads_as customer_from_dict (xs @ ys) hs \<and> length hs = length xs + length ys"
proof -
  from d valid obtain hs1 where 1: "load_customers_loop xs ([], []) = (hs1, [])"
      and l1: "loads_as customer_from_dict xs hs1"
    using load_customers_loop_valid [of xs "[]" "[]"] by auto
  have keys1: "map fst hs1 = map fst xs" using l1 by (rule loads_as_keys)
  have "fst ` set hs1 = fst ` set xs"
    using keys1 by (metis image_set)
  moreover have "fst ` set ys \<inter> fst ` set xs = {}"
    using d by auto
  ultimately have "fst ` set ys \<inter> fst ` set hs1 = {}" by simp
  with d valid obtain hs2 where
      2: "load_customers_loop ys (hs1, [RecordError k e]) = (hs1 @ hs2, [RecordError k e])"
      and l2: "loads_as customer_from_dict ys hs2"
    using load_customers_loop_valid [of ys hs1 "[RecordError k e]"] by auto
  have "load_customers (Content (xs @ (k, bad) # ys)) = (hs1 @ hs2, [RecordError k e])"
    by (simp add: load_customers_loop_append 1 bad 2)
  moreover have "loads_as customer_from_dict (xs @ ys) (hs1 @ hs2)"
    using l1 l2 by (rule loads_as_append)
  moreover have "length (hs1 @ hs2) = length xs + length ys"
    using l1 l2 by (simp add: loads_as_length)
  ultimately show ?thesis by blast
qed

lemma load_reservations_loop_append:
  "load_reservations_loop (xs @ ys) acc = load_reservations_loop ys (load_reservations_loop xs acc)"
  by (induction xs acc rule: load_reservations_loop.induct) (auto split: sum.splits)

lemma load_reservations_loop_valid:
  "distinct (map fst items) \<Longrightarrow> fst ` set items \<inter> fst ` set acc = {} \<Longrightarrow>
   \<forall>p \<in> set items. \<not> isl (reservation_from_dict (snd p)) \<Longrightarrow>
   \<exists>hs. load_reservations_loop items (acc, out) = (acc @ hs, out) \<and> loads_as reservation_from_dict items hs"
proof (induction items arbitrary: acc)
  case Nil
  then show ?case by (simp add: loads_as_def)
next
  case (Cons p items)
  obtain k v where p: "p = (k, v)" by (cases p)
  from Cons.prems(3) obtain h where h: "reservation_from_dict v = Inr h"
    by (cases "reservation_from_dict v") (auto simp: p)
  from Cons.prems have fresh: "k \<notin> fst ` set acc" and d: "distinct (map fst items)"
    and disj: "fst ` set items \<inter> fst ` set (acc @ [(k, h)]) = {}"
    and v: "\<forall>p \<in> set items. \<not> isl (reservation_from_dict (snd p))"
    by (auto simp: p)
  from Cons.IH [OF d disj v] obtain hs where
    hs: "load_reservations_loop items (acc @ [(k, h)], out) = ((acc @ [(k, h)]) @ hs, out)"
      "loads_as reservation_from_dict items hs"
    by blast
  have "load_reservations_loop (p # items) (acc, out) = (acc @ ((k, h) # hs), out)"
    using hs(1) fresh by (simp add: p h update_fresh)
  moreover have "loads_as reservation_from_dict (p # items) ((k, h) # hs)"
    using hs(2) by (simp add: loads_as_def p h)
  ultimately show ?case by blast
qed

lemma one_bad_reservation:
  assumes d: "distinct (map fst (xs @ (k, bad) # ys))"
    and bad: "reservation_from_dict bad = Inl e"
    and valid: "\<forall>p \<in> set (xs @ ys). \<not> isl (reservation_from_dict (snd p))"
  shows "\<exists>hs. load_reservations (Content (xs @ (k, bad) # ys)) = (hs, [RecordError k e]) \<and>
           loads_as reservation_from_dict (xs @ ys) hs \<and> length hs = length xs + length ys"
proof -
  from d valid obtain hs1 where 1: "load_reservations_loop xs ([], []) = (hs1, [])"
      and l1: "loads_as reservation_from_dict xs hs1"
    using load_reservations_loop_valid [of xs "[]" "[]"] by auto
  have keys1: "map fst hs1 = map fst xs" using l1 by (rule loads_as_keys)
  have "fst ` set hs1 = fst ` set xs"
    using keys1 by (metis image_set)
  moreover have "fst ` set ys \<inter> fst ` set xs = {}"
    using d by auto
  ultimately have "fst ` set ys \<inter> fst ` set hs1 = {}" by simp
  with d valid obtain hs2 where
      2: "load_reservations_loop ys (hs1, [RecordError k e]) = (hs1 @ hs2, [RecordError k e])"
      and l2: "loads_as reservation_from_dict ys hs2"
    using load_reservations_loop_valid [of ys hs1 "[RecordError k e]"] by auto
  have "load_reservations (Content (xs @ (k, bad) # ys)) = (hs1 @ hs2, [RecordError k e])"
    by (simp add: load_reservations_loop_append 1 bad 2)
  moreover have "loads_as reservation_from_dict (xs @ ys) (hs1 @ hs2)"
    using l1 l2 by (rule loads_as_append)
  moreover have "length (hs1 @ hs2) = length xs + length ys"
    using l1 l2 by (simp add: loads_as_length)
  ultimately show ?thesis by blast
qed

section \<open>The two stores stay in agreement\<close>

lemma agree_empty: "agree Map.empty Map.empty"
  by (simp add: agree_def)

lemma agree_new_hotel:
  assumes "agree H R" "H hid = None"
  shows "agree (H(hid \<mapsto> Hotel hid nm loc rooms)) R"
  unfolding agree_def
proof (intro conjI allI impI)
  fix rid r assume "R rid = Some r"
  with assms obtain h where h: "H (res_hotel_id r) = Some h" "rid \<in> set (reservations h)"
    unfolding agree_def by blast
  with assms(2) have "res_hotel_id r \<noteq> hid" by auto
  with h show "\<exists>h. (H(hid \<mapsto> Hotel hid nm loc rooms)) (res_hotel_id r) = Some h \<and>
      rid \<in> set (reservations h)" by simp
next
  fix k h assume k: "(H(hid \<mapsto> Hotel hid nm loc rooms)) k = Some h"
  show "room_count_matches h"
    using k assms(1) unfolding agree_def
    by (cases "k = hid") (auto simp: Hotel_def room_count_matches_def)
  show "distinct (reservations h)"
    using k assms(1) unfolding agree_def
    by (cases "k = hid") (auto simp: Hotel_def)
  show "\<forall>rid\<in>set (reservations h). \<exists>r. R rid = Some r \<and> res_hotel_id r = k"
    using k assms(1) unfolding agree_def
    by (cases "k = hid") (auto simp: Hotel_def)
qed

lemma agree_book:
  assumes a: "agree H R" and new: "R rid = None" and h: "H hid = Some h"
    and r: "res_hotel_id r = hid"
  shows "agree (H(hid \<mapsto> h\<lparr>available_rooms := available_rooms h - 1,
                           reservations := reservations h @ [rid]\<rparr>))
               (R(rid \<mapsto> r))"
  unfolding agree_def
proof (intro conjI allI impI)
  let ?h' = "h\<lparr>available_rooms := available_rooms h - 1, reservations := reservations h @ [rid]\<rparr>"
  let ?H = "H(hid \<mapsto> ?h')"
  fix k x assume x: "(R(rid \<mapsto> r)) k = Some x"
  show "\<exists>h. ?H (res_hotel_id x) = Some h \<and> k \<in> set (reservations h)"
  proof (cases "k = rid")
    case True
    with x r show ?thesis by simp
  next
    case False
    with x have "R k = Some x" by simp
    with a obtain h0 where h0: "H (res_hotel_id x) = Some h0" "k \<in> set (reservations h0)"
      unfolding agree_def by blast
    with h show ?thesis by (cases "res_hotel_id x = hid") auto
  qed
next
  let ?h' = "h\<lparr>available_rooms := available_rooms h - 1, reservations := reservations h @ [rid]\<rparr>"
  fix k y assume y: "(H(hid \<mapsto> ?h')) k = Some y"
  from a h have old: "room_count_matches h" "distinct (reservations h)"
    "\<forall>x\<in>set (reservations h). \<exists>r. R x = Some r \<and> res_hotel_id r = hid"
    unfolding agree_def by blast+
  from old(3) new have fresh: "rid \<notin> set (reservations h)" by auto
  show "room_count_matches y"
  proof (cases "k = hid")
    case True
    with y old(1) show ?thesis by (auto simp: room_count_matches_def)
  next
    case False
    with y a show ?thesis unfolding agree_def by auto
  qed
  show "distinct (reservations y)"
  proof (cases "k = hid")
    case True
    with y old(2) fresh show ?thesis by auto
  next
    case False
    with y a show ?thesis unfolding agree_def by auto
  qed
  show "\<forall>x\<in>set (reservations y). \<exists>r'. (R(rid \<mapsto> r)) x = Some r' \<and> res_hotel_id r' = k"
  proof (cases "k = hid")
    case True
    with y old(3) r show ?thesis by auto
  next
    case False
    with y have "H k = Some y" by simp
    with a have "\<forall>x\<in>set (reservations y). \<exists>r'. R x = Some r' \<and> res_hotel_id r' = k"
      unfolding agree_def by blast
    with new show ?thesis by auto
  qed
qed

lemma agree_cancel:
  assumes a: "agree H R" and r: "R rid = Some r" and h: "H (res_hotel_id r) = Some h"
  shows "agree (H(res_hotel_id r \<mapsto> h\<lparr>reservations := remove1 rid (reservations h),
                   available_rooms := min (total_rooms h) (available_rooms h + 1)\<rparr>))
               (R(rid := None))"
  unfolding agree_def
proof (intro conjI allI impI)
  let ?hid = "res_hotel_id r"
  let ?h' = "h\<lparr>reservations := remove1 rid (reservations h),
                available_rooms := min (total_rooms h) (available_rooms h + 1)\<rparr>"
  fix k x assume x: "(R(rid := None)) k = Some x"
  then have ne: "k \<noteq> rid" and "R k = Some x" by (auto split: if_splits)
  with a obtain h0 where h0: "H (res_hotel_id x) = Some h0" "k \<in> set (reservations h0)"
    unfolding agree_def by blast
  with h ne show "\<exists>h. (H(?hid \<mapsto> ?h')) (res_hotel_id x) = Some h \<and> k \<in> set (reservations h)"
    by (cases "res_hotel_id x = ?hid") auto
next
  let ?hid = "res_hotel_id r"
  let ?h' = "h\<lparr>reservations := remove1 rid (reservations h),
                available_rooms := min (total_rooms h) (available_rooms h + 1)\<rparr>"
  fix k y assume y: "(H(?hid \<mapsto> ?h')) k = Some y"
  from a h have old: "room_count_matches h" "distinct (reservations h)"
    "\<forall>x\<in>set (reservations h). \<exists>r'. R x = Some r' \<and> res_hotel_id r' = ?hid"
    unfolding agree_def by blast+
  from a r h have listed: "rid \<in> set (reservations h)" unfolding agree_def by fastforce
  then have pos: "0 < length (reservations h)" by (cases "reservations h") auto
  show "room_count_matches y"
  proof (cases "k = ?hid")
    case True
    with y old(1) listed pos show ?thesis
      by (auto simp: room_count_matches_def length_remove1)
  next
    case False
    with y a show ?thesis unfolding agree_def by auto
  qed
  show "distinct (reservations y)"
  proof (cases "k = ?hid")
    case True
    with y old(2) show ?thesis by auto
  next
    case False
    with y a show ?thesis unfolding agree_def by auto
  qed
  show "\<forall>x\<in>set (reservations y). \<exists>r'. (R(rid := None)) x = Some r' \<and> res_hotel_id r' = k"
  proof (cases "k = ?hid")
    case True
    with y old(2,3) show ?thesis by auto
  next
    case False
    with y have "H k = Some y" by simp
    with a have all: "\<forall>x\<in>set (reservations y). \<exists>r'. R x = Some r' \<and> res_hotel_id r' = k"
      unfolding agree_def by blast
    show ?thesis
    proof
      fix x assume "x \<in> set (reservations y)"
      with all obtain r' where r': "R x = Some r'" "res_hotel_id r' = k" by blast
      with r False have "x \<noteq> rid" by auto
      with r' show "\<exists>r'. (R(rid := None)) x = Some r' \<and> res_hotel_id r' = k" by simp
    qed
  qed
qed


lemma consistent_blank: "consistent blank"
proof -
  have "(\<lambda>hid. display_hotel hid (hotels_file blank)) = Map.empty"
    by (simp add: display_hotel_def blank_def)
  moreover have "(\<lambda>rid. display_reservation rid blank) = Map.empty"
    by (simp add: display_reservation_def blank_def)
  ultimately show ?thesis by (simp add: consistent_def agree_empty)
qed

lemma consistent_new_hotel:
  assumes "consistent w"
  shows "consistent (w\<lparr>hotels_file := snd (create_hotel hid nm loc rooms (hotels_file w))\<rparr>)"
proof -
  let ?H = "\<lambda>k. display_hotel k (hotels_file w)"
  let ?w' = "w\<lparr>hotels_file := snd (create_hotel hid nm loc rooms (hotels_file w))\<rparr>"
  have R: "(\<lambda>rid. display_reservation rid ?w') = (\<lambda>rid. display_reservation rid w)"
    by (simp add: display_reservation_def)
  show ?thesis
  proof (cases "display_hotel hid (hotels_file w)")
    case None
    then have "(\<lambda>k. display_hotel k (hotels_file ?w')) = ?H(hid \<mapsto> Hotel hid nm loc rooms)"
      by (auto simp: display_hotel_create_hotel)
    with assms None R show ?thesis
      by (simp add: consistent_def agree_new_hotel)
  next
    case (Some h)
    then have "(\<lambda>k. display_hotel k (hotels_file ?w')) = ?H"
      by (auto simp: display_hotel_create_hotel)
    with assms R show ?thesis by (simp add: consistent_def)
  qed
qed

lemma consistent_new_customer:
  "consistent w \<Longrightarrow>
   consistent (w\<lparr>customers_file := snd (create_customer cid nm em ph (customers_file w))\<rparr>)"
  by (simp add: consistent_def display_reservation_def)

lemma consistent_book:
  assumes c: "consistent w"
  shows "consistent (snd (create_reservation rid cid hid ci co w))"
proof (cases "display_reservation rid w")
  case (Some r)
  with c show ?thesis by (simp add: create_reservation_exists)
next
  case new: None
  show ?thesis
  proof (cases "display_customer cid (customers_file w)")
    case None
    with c new show ?thesis by (simp add: create_reservation_no_customer)
  next
    case (Some cust)
    show ?thesis
    proof (cases "\<exists>h. display_hotel hid (hotels_file w) = Some h \<and> 0 < available_rooms h")
      case False
      then obtain e where "reserve_room hid rid (hotels_file w) = (Inl e, hotels_file w)"
        by (cases "display_hotel hid (hotels_file w)")
           (auto simp: reserve_room_absent reserve_room_full not_less)
      with c new Some show ?thesis by (simp add: create_reservation_no_room)
    next
      case True
      then obtain h where h: "display_hotel hid (hotels_file w) = Some h" "0 < available_rooms h"
        by blast
      let ?h' = "h\<lparr>available_rooms := available_rooms h - 1,
                    reservations := reservations h @ [rid]\<rparr>"
      let ?r = "Reservation rid cid hid ci co"
      let ?w' = "snd (create_reservation rid cid hid ci co w)"
      have w': "?w' = w\<lparr>hotels_file := save_hotels (AList.update hid ?h'
                        (fst (load_hotels (hotels_file w)))),
                      reservations_file := save_reservations (AList.update rid ?r
                        (fst (load_reservations (reservations_file w))))\<rparr>"
        using new Some reserve_room_ok [OF h] by (simp add: create_reservation_ok)
      have H: "(\<lambda>k. display_hotel k (hotels_file ?w')) =
                 (\<lambda>k. display_hotel k (hotels_file w))(hid \<mapsto> ?h')"
        by (auto simp: w' display_hotel_updated)
      have R: "(\<lambda>k. display_reservation k ?w') = (\<lambda>k. display_reservation k w)(rid \<mapsto> ?r)"
        by (auto simp: w' display_reservation_def stored_reservation_updated)
      have "res_hotel_id ?r = hid" by (simp add: Reservation_def)
      with c new h(1) show ?thesis
        unfolding consistent_def H R by (intro agree_book) simp_all
    qed
  qed
qed

lemma consistent_cancel:
  assumes c: "consistent w"
  shows "consistent (snd (cancel_reservation rid w))"
proof (cases "display_reservation rid w")
  case None
  with c show ?thesis by (simp add: cancel_reservation_absent)
next
  case (Some r)
  with c obtain h where h: "display_hotel (res_hotel_id r) (hotels_file w) = Some h"
      "rid \<in> set (reservations h)"
    unfolding consistent_def agree_def by blast
  let ?h' = "h\<lparr>reservations := remove1 rid (reservations h),
                available_rooms := min (total_rooms h) (available_rooms h + 1)\<rparr>"
  let ?w' = "snd (cancel_reservation rid w)"
  have H: "(\<lambda>k. display_hotel k (hotels_file ?w')) =
             (\<lambda>k. display_hotel k (hotels_file w))(res_hotel_id r \<mapsto> ?h')"
    using h by (auto simp: cancel_reservation_ok [OF Some] display_hotel_cancel_room)
  have R: "(\<lambda>k. display_reservation k ?w') = (\<lambda>k. display_reservation k w)(rid := None)"
    by (auto simp: cancel_reservation_ok [OF Some] display_reservation_def
          stored_reservation_deleted)
  from c Some h(1) show ?thesis
    unfolding consistent_def H R by (intro agree_cancel) simp_all
qed

lemma reachable_consistent: "reachable w \<Longrightarrow> consistent w"
  by (induction rule: reachable.induct)
     (simp_all add: consistent_blank consistent_new_hotel consistent_new_customer
        consistent_book consistent_cancel)

text \<open>The example worlds are reachable.\<close>

lemma reachable_ready: "reachable ready"
proof -
  have 1: "reachable (blank\<lparr>hotels_file :=
              snd (create_hotel ''H1'' ''Tiny Hotel'' ''NYC'' 1 (hotels_file blank))\<rparr>)"
    by (rule reachable.new_hotel [OF reachable.start])
  have 2: "ready = (blank\<lparr>hotels_file :=
              snd (create_hotel ''H1'' ''Tiny Hotel'' ''NYC'' 1 (hotels_file blank))\<rparr>)
            \<lparr>customers_file := snd (create_customer ''C1'' ''Alice'' ''alice@mail.com'' ''555-1234''
               (customers_file (blank\<lparr>hotels_file :=
              snd (create_hotel ''H1'' ''Tiny Hotel'' ''NYC'' 1 (hotels_file blank))\<rparr>)))\<rparr>"
    by (simp add: ready_def blank_def tiny_hotel_def)
  show ?thesis
    unfolding 2 by (rule reachable.new_customer [OF 1])
qed

lemma reachable_booked: "reachable booked"
  unfolding booked_def by (rule reachable.book [OF reachable_ready])

section \<open>A fact about lists\<close>

lemma count_list_remove1_doubled:
  "count_list (remove1 x (xs @ [x, x])) x = count_list xs x + 1"
  by (induction xs) auto

section \<open>Properties of the operations\<close>

text \<open>
  C4. A hotel with no available room refuses a reservation with \<open>NoAvailability\<close>, and
  a hotel identifier that the store does not have is refused with the line
  \<^verbatim>\<open>Hotel '...' not found.\<close>; in both cases \<^const>\<open>reserve_room\<close> hands back the hotel
  file it was given: nothing is decremented, appended or saved.
\<close>

theorem reserve_room_refuses:
  "(display_hotel hid f = Some h \<and> available_rooms h = 0 \<longrightarrow>
      reserve_room hid rid f = (Inl NoAvailability, f)) \<and>
   (display_hotel hid f = None \<longrightarrow> reserve_room hid rid f = (Inl HotelNotFound, f))"
  by (simp add: reserve_room_absent reserve_room_full)

theorem reserve_room_refuses_witness:
  "display_hotel ''H1'' full_house =
     Some \<lparr>hotel_id = ''H1'', name = ''Tiny Hotel'', location = ''NYC'', total_rooms = 1,
           available_rooms = 0, reservations = [''R1'']\<rparr> \<and>
   reserve_room ''H1'' ''R2'' full_house = (Inl NoAvailability, full_house) \<and>
   display_hotel ''H2'' full_house = None \<and>
   reserve_room ''H2'' ''R2'' full_house = (Inl HotelNotFound, full_house)"
proof -
  have 1: "display_hotel ''H1'' full_house =
     Some \<lparr>hotel_id = ''H1'', name = ''Tiny Hotel'', location = ''NYC'', total_rooms = 1,
           available_rooms = 0, reservations = [''R1'']\<rparr>"
    by code_simp
  have 2: "display_hotel ''H2'' full_house = None"
    by code_simp
  from 1 2 reserve_room_refuses
    [of "''H1''" full_house
        "\<lparr>hotel_id = ''H1'', name = ''Tiny Hotel'', location = ''NYC'', total_rooms = 1,
          available_rooms = 0, reservations = [''R1'']\<rparr>" "''R2''"]
    reserve_room_refuses [of "''H2''" full_house _ "''R2''"]
  show ?thesis by simp
qed

text \<open>
  C1, as the code has it. \<^const>\<open>reserve_room\<close> and \<^const>\<open>cancel_room\<close> keep the room count
  of a hotel in step with its occupant list, they do not establish it: every hotel the
  store holds after a successful call was in the store before the call, and if its
  \<open>available_rooms\<close> was \<open>total_rooms\<close> minus the length of its list before, it is so
  after.
\<close>

theorem room_count_preserved:
  "(fst (reserve_room hid rid f) = Inr () \<and>
      display_hotel k (snd (reserve_room hid rid f)) = Some h' \<longrightarrow>
      (\<exists>h. display_hotel k f = Some h \<and> (room_count_matches h \<longrightarrow> room_count_matches h'))) \<and>
   (fst (cancel_room hid rid f) = Inr () \<and>
      display_hotel k (snd (cancel_room hid rid f)) = Some h' \<longrightarrow>
      (\<exists>h. display_hotel k f = Some h \<and> (room_count_matches h \<longrightarrow> room_count_matches h')))"
proof (intro conjI impI)
  assume a: "fst (reserve_room hid rid f) = Inr () \<and>
      display_hotel k (snd (reserve_room hid rid f)) = Some h'"
  then obtain h where h: "display_hotel hid f = Some h" "0 < available_rooms h"
    by (auto simp: reserve_room_success_iff)
  from a show "\<exists>h. display_hotel k f = Some h \<and> (room_count_matches h \<longrightarrow> room_count_matches h')"
    by (auto simp: display_hotel_reserve_room h room_count_matches_def split: if_splits)
next
  assume a: "fst (cancel_room hid rid f) = Inr () \<and>
      display_hotel k (snd (cancel_room hid rid f)) = Some h'"
  then obtain h where h: "display_hotel hid f = Some h" "rid \<in> set (reservations h)"
    by (auto simp: cancel_room_success_iff)
  then have "0 < length (reservations h)" by (cases "reservations h") auto
  with a h show "\<exists>h. display_hotel k f = Some h \<and> (room_count_matches h \<longrightarrow> room_count_matches h')"
    by (auto simp: display_hotel_cancel_room room_count_matches_def length_remove1
             split: if_splits)
qed

theorem room_count_preserved_witness:
  "fst (reserve_room ''H1'' ''R1'' tiny_hotel) = Inr () \<and>
   display_hotel ''H1'' tiny_hotel = Some (Hotel ''H1'' ''Tiny Hotel'' ''NYC'' 1) \<and>
   room_count_matches (Hotel ''H1'' ''Tiny Hotel'' ''NYC'' 1) \<and>
   display_hotel ''H1'' (snd (reserve_room ''H1'' ''R1'' tiny_hotel)) =
     Some \<lparr>hotel_id = ''H1'', name = ''Tiny Hotel'', location = ''NYC'', total_rooms = 1,
           available_rooms = 0, reservations = [''R1'']\<rparr> \<and>
   room_count_matches
     \<lparr>hotel_id = ''H1'', name = ''Tiny Hotel'', location = ''NYC'', total_rooms = 1,
      available_rooms = 0, reservations = [''R1'']\<rparr> \<and>
   fst (cancel_room ''H1'' ''R1'' full_house) = Inr () \<and>
   display_hotel ''H1'' (snd (cancel_room ''H1'' ''R1'' full_house)) =
     Some (Hotel ''H1'' ''Tiny Hotel'' ''NYC'' 1)"
proof -
  let ?h1 = "\<lparr>hotel_id = ''H1'', name = ''Tiny Hotel'', location = ''NYC'', total_rooms = 1,
           available_rooms = 0, reservations = [''R1'']\<rparr>"
  have 1: "fst (reserve_room ''H1'' ''R1'' tiny_hotel) = Inr ()" by code_simp
  have 2: "display_hotel ''H1'' tiny_hotel = Some (Hotel ''H1'' ''Tiny Hotel'' ''NYC'' 1)"
    by code_simp
  have 3: "room_count_matches (Hotel ''H1'' ''Tiny Hotel'' ''NYC'' 1)"
    by (simp add: room_count_matches_def Hotel_def)
  have 4: "display_hotel ''H1'' (snd (reserve_room ''H1'' ''R1'' tiny_hotel)) = Some ?h1"
    by code_simp
  have 5: "fst (cancel_room ''H1'' ''R1'' full_house) = Inr ()" by code_simp
  have 6: "display_hotel ''H1'' (snd (cancel_room ''H1'' ''R1'' full_house)) =
     Some (Hotel ''H1'' ''Tiny Hotel'' ''NYC'' 1)" by code_simp
  from room_count_preserved [of "''H1''" "''R1''" tiny_hotel "''H1''" ?h1] 1 2 3 4
  have "room_count_matches ?h1" by auto
  with 1 2 3 4 5 6 show ?thesis by simp
qed

text \<open>
  C1 as stated fails. The store \<^const>\<open>regrown\<close> is built by calls of hotel.py alone:
  \<^verbatim>\<open>create_hotel("H1", ..., 1)\<close>, \<^verbatim>\<open>reserve_room("H1", "R1")\<close>,
  \<^verbatim>\<open>modify_hotel("H1", total_rooms=0)\<close>, \<^verbatim>\<open>modify_hotel("H1", total_rooms=1)\<close>. The
  next \<^verbatim>\<open>reserve_room("H1", "R2")\<close> succeeds and leaves one room in total, none
  available and two occupants.
\<close>

theorem room_count_counterexample:
  "fst (reserve_room ''H1'' ''R2'' regrown) = Inr () \<and>
   display_hotel ''H1'' (snd (reserve_room ''H1'' ''R2'' regrown)) =
     Some \<lparr>hotel_id = ''H1'', name = ''Tiny Hotel'', location = ''NYC'', total_rooms = 1,
           available_rooms = 0, reservations = [''R1'', ''R2'']\<rparr> \<and>
   \<not> room_count_matches
     \<lparr>hotel_id = ''H1'', name = ''Tiny Hotel'', location = ''NYC'', total_rooms = 1,
      available_rooms = 0, reservations = [''R1'', ''R2'']\<rparr>"
proof (intro conjI)
  show "fst (reserve_room ''H1'' ''R2'' regrown) = Inr ()" by code_simp
  show "display_hotel ''H1'' (snd (reserve_room ''H1'' ''R2'' regrown)) =
     Some \<lparr>hotel_id = ''H1'', name = ''Tiny Hotel'', location = ''NYC'', total_rooms = 1,
           available_rooms = 0, reservations = [''R1'', ''R2'']\<rparr>" by code_simp
  show "\<not> room_count_matches
     \<lparr>hotel_id = ''H1'', name = ''Tiny Hotel'', location = ''NYC'', total_rooms = 1,
      available_rooms = 0, reservations = [''R1'', ''R2'']\<rparr>"
    by (simp add: room_count_matches_def)
qed

text \<open>
  C2. \<^const>\<open>create_reservation\<close> refuses a reservation identifier that is already stored
  with \<open>AlreadyExists\<close> and, for a new identifier, a customer identifier that is not
  stored with \<open>CustomerNotFound\<close>; both leave the three files as they were. When
  \<^const>\<open>reserve_room\<close> on the hotel file fails, the call fails and the world is the one
  given. So a reservation record that differs after the call means that
  \<^const>\<open>reserve_room\<close> succeeded.
\<close>

theorem create_reservation_guarded:
  "(display_reservation rid w \<noteq> None \<longrightarrow>
      create_reservation rid cid hid ci co w = (Inl AlreadyExists, w)) \<and>
   (display_reservation rid w = None \<and> display_customer cid (customers_file w) = None \<longrightarrow>
      create_reservation rid cid hid ci co w = (Inl CustomerNotFound, w)) \<and>
   (fst (reserve_room hid rid (hotels_file w)) = Inl e \<longrightarrow>
      snd (create_reservation rid cid hid ci co w) = w \<and>
      isl (fst (create_reservation rid cid hid ci co w))) \<and>
   (display_reservation k (snd (create_reservation rid cid hid ci co w))
      \<noteq> display_reservation k w \<longrightarrow>
      fst (reserve_room hid rid (hotels_file w)) = Inr ())"
proof -
  have refused: "snd (create_reservation rid cid hid ci co w) = w \<and>
      isl (fst (create_reservation rid cid hid ci co w))"
    if f: "fst (reserve_room hid rid (hotels_file w)) = Inl e'" for e'
  proof -
    from f obtain hfile where r: "reserve_room hid rid (hotels_file w) = (Inl e', hfile)"
      by (cases "reserve_room hid rid (hotels_file w)") auto
    then have same: "hfile = hotels_file w" by (rule reserve_room_failure_keeps_file)
    show ?thesis
    proof (cases "display_reservation rid w")
      case (Some r')
      then show ?thesis by (simp add: create_reservation_exists)
    next
      case None
      show ?thesis
      proof (cases "display_customer cid (customers_file w)")
        case None
        with \<open>display_reservation rid w = None\<close> show ?thesis
          by (simp add: create_reservation_no_customer)
      next
        case (Some c)
        with \<open>display_reservation rid w = None\<close> r same show ?thesis
          by (simp add: create_reservation_no_room)
      qed
    qed
  qed
  have 1: "display_reservation rid w \<noteq> None \<longrightarrow>
      create_reservation rid cid hid ci co w = (Inl AlreadyExists, w)"
    by (auto simp: create_reservation_exists)
  have 2: "display_reservation rid w = None \<and> display_customer cid (customers_file w) = None \<longrightarrow>
      create_reservation rid cid hid ci co w = (Inl CustomerNotFound, w)"
    by (simp add: create_reservation_no_customer)
  have 3: "fst (reserve_room hid rid (hotels_file w)) = Inl e \<longrightarrow>
      snd (create_reservation rid cid hid ci co w) = w \<and>
      isl (fst (create_reservation rid cid hid ci co w))"
    using refused by blast
  have 4: "display_reservation k (snd (create_reservation rid cid hid ci co w))
      \<noteq> display_reservation k w \<longrightarrow>
      fst (reserve_room hid rid (hotels_file w)) = Inr ()"
  proof (cases "fst (reserve_room hid rid (hotels_file w))")
    case (Inl e')
    then show ?thesis using refused [of e'] by simp
  next
    case (Inr u)
    then show ?thesis by simp
  qed
  from 1 2 3 4 show ?thesis by blast
qed

theorem create_reservation_guarded_witness:
  "display_reservation ''R1'' booked =
     Some (Reservation ''R1'' ''C1'' ''H1'' ''2024-01-01'' ''2024-01-05'') \<and>
   create_reservation ''R1'' ''C1'' ''H1'' ''2024-02-01'' ''2024-02-05'' booked
     = (Inl AlreadyExists, booked) \<and>
   display_reservation ''R2'' booked = None \<and>
   display_customer ''GHOST_CUSTOMER'' (customers_file booked) = None \<and>
   create_reservation ''R2'' ''GHOST_CUSTOMER'' ''H1'' ''2024-01-06'' ''2024-01-10'' booked
     = (Inl CustomerNotFound, booked) \<and>
   fst (reserve_room ''H1'' ''R2'' (hotels_file booked)) = Inl NoAvailability \<and>
   snd (create_reservation ''R2'' ''C1'' ''H1'' ''2024-01-06'' ''2024-01-10'' booked) = booked \<and>
   isl (fst (create_reservation ''R2'' ''C1'' ''H1'' ''2024-01-06'' ''2024-01-10'' booked))"
proof -
  have 1: "display_reservation ''R1'' booked =
     Some (Reservation ''R1'' ''C1'' ''H1'' ''2024-01-01'' ''2024-01-05'')"
    by code_simp
  have 2: "display_reservation ''R2'' booked = None" by code_simp
  have 3: "display_customer ''GHOST_CUSTOMER'' (customers_file booked) = None" by code_simp
  have 4: "fst (reserve_room ''H1'' ''R2'' (hotels_file booked)) = Inl NoAvailability"
    by code_simp
  from 1 2 3 4
    create_reservation_guarded
      [of "''R1''" booked "''C1''" "''H1''" "''2024-02-01''" "''2024-02-05''"]
    create_reservation_guarded
      [of "''R2''" booked "''GHOST_CUSTOMER''" "''H1''" "''2024-01-06''" "''2024-01-10''"]
    create_reservation_guarded
      [of "''R2''" booked "''C1''" "''H1''" "''2024-01-06''" "''2024-01-10''" NoAvailability]
  show ?thesis by simp
qed

text \<open>
  C3. \<^const>\<open>cancel_reservation\<close> on a stored identifier returns \<^verbatim>\<open>True\<close>, the record is gone
  afterwards and every other record is as before, with no condition on the hotel file:
  the result of \<^const>\<open>cancel_room\<close> is not looked at. On an identifier that is not stored
  it fails with \<open>NotFound\<close> and the world is the one given.
\<close>

theorem cancel_reservation_removes:
  "(display_reservation rid w = Some r \<longrightarrow>
      fst (cancel_reservation rid w) = Inr () \<and>
      display_reservation rid (snd (cancel_reservation rid w)) = None \<and>
      (\<forall>k. k \<noteq> rid \<longrightarrow>
         display_reservation k (snd (cancel_reservation rid w)) = display_reservation k w)) \<and>
   (display_reservation rid w = None \<longrightarrow> cancel_reservation rid w = (Inl NotFound, w))"
  by (auto simp: cancel_reservation_ok cancel_reservation_absent)
     (simp_all add: display_reservation_def stored_reservation_deleted)


theorem cancel_reservation_removes_witness:
  "display_reservation ''R1'' booked =
     Some (Reservation ''R1'' ''C1'' ''H1'' ''2024-01-01'' ''2024-01-05'') \<and>
   fst (cancel_room ''H1'' ''R1'' (hotels_file booked)) = Inr () \<and>
   fst (cancel_reservation ''R1'' booked) = Inr () \<and>
   display_reservation ''R1'' (snd (cancel_reservation ''R1'' booked)) = None \<and>
   display_reservation ''R1'' orphaned =
     Some (Reservation ''R1'' ''C1'' ''H1'' ''2024-01-01'' ''2024-01-05'') \<and>
   fst (cancel_room ''H1'' ''R1'' (hotels_file orphaned)) = Inl HotelNotFound \<and>
   fst (cancel_reservation ''R1'' orphaned) = Inr () \<and>
   display_reservation ''R1'' (snd (cancel_reservation ''R1'' orphaned)) = None \<and>
   display_reservation ''R2'' booked = None \<and>
   cancel_reservation ''R2'' booked = (Inl NotFound, booked)"
proof -
  let ?r = "Reservation ''R1'' ''C1'' ''H1'' ''2024-01-01'' ''2024-01-05''"
  have 1: "display_reservation ''R1'' booked = Some ?r" by code_simp
  have 2: "fst (cancel_room ''H1'' ''R1'' (hotels_file booked)) = Inr ()" by code_simp
  have 3: "display_reservation ''R1'' orphaned = Some ?r" by code_simp
  have 4: "fst (cancel_room ''H1'' ''R1'' (hotels_file orphaned)) = Inl HotelNotFound"
    by code_simp
  have 5: "display_reservation ''R2'' booked = None" by code_simp
  from 1 2 3 4 5
    cancel_reservation_removes [of "''R1''" booked ?r]
    cancel_reservation_removes [of "''R1''" orphaned ?r]
    cancel_reservation_removes [of "''R2''" booked]
  show ?thesis by simp
qed

text \<open>
  C7. Reading back the dictionary that \<^verbatim>\<open>to_dict\<close> builds gives the entity it was built
  from, for customers, hotels (availability and occupant list included) and
  reservations. Equality is equality of all attributes.
\<close>

theorem round_trip:
  "customer_from_dict (customer_to_dict c) = Inr c \<and>
   hotel_from_dict (hotel_to_dict h) = Inr h \<and>
   reservation_from_dict (reservation_to_dict r) = Inr r"
  by (simp add: customer_round_trip hotel_round_trip reservation_round_trip)

text \<open>
  C9. On a stored hotel, \<^const>\<open>modify_hotel\<close> with a new total succeeds, whatever the other
  two arguments; afterwards the total is the new one, the availability is the old
  availability plus the difference of the totals, or 0 if that is negative, and the
  occupant list is as before.
\<close>

theorem modify_hotel_total_rooms:
  "display_hotel hid f = Some h \<Longrightarrow>
   fst (modify_hotel hid new_name new_location (Some n) f) = Inr () \<and>
   (\<exists>h'. display_hotel hid (snd (modify_hotel hid new_name new_location (Some n) f)) = Some h' \<and>
      total_rooms h' = n \<and>
      available_rooms h' = max 0 (available_rooms h + (n - total_rooms h)) \<and>
      reservations h' = reservations h)"
  by (simp add: modify_hotel_ok display_hotel_updated apply_changes_rooms)

theorem modify_hotel_total_rooms_witness:
  "display_hotel ''H1'' full_house =
     Some \<lparr>hotel_id = ''H1'', name = ''Tiny Hotel'', location = ''NYC'', total_rooms = 1,
           available_rooms = 0, reservations = [''R1'']\<rparr> \<and>
   fst (modify_hotel ''H1'' None None (Some 0) full_house) = Inr () \<and>
   display_hotel ''H1'' (snd (modify_hotel ''H1'' None None (Some 0) full_house)) =
     Some \<lparr>hotel_id = ''H1'', name = ''Tiny Hotel'', location = ''NYC'', total_rooms = 0,
           available_rooms = 0, reservations = [''R1'']\<rparr> \<and>
   fst (modify_hotel ''H1'' (Some ''Grand Inn'') None (Some 50) full_house) = Inr () \<and>
   display_hotel ''H1'' (snd (modify_hotel ''H1'' (Some ''Grand Inn'') None (Some 50) full_house)) =
     Some \<lparr>hotel_id = ''H1'', name = ''Grand Inn'', location = ''NYC'', total_rooms = 50,
           available_rooms = 49, reservations = [''R1'']\<rparr>"
proof -
  have 1: "display_hotel ''H1'' full_house =
     Some \<lparr>hotel_id = ''H1'', name = ''Tiny Hotel'', location = ''NYC'', total_rooms = 1,
           available_rooms = 0, reservations = [''R1'']\<rparr>"
    by code_simp
  have 2: "display_hotel ''H1'' (snd (modify_hotel ''H1'' None None (Some 0) full_house)) =
     Some \<lparr>hotel_id = ''H1'', name = ''Tiny Hotel'', location = ''NYC'', total_rooms = 0,
           available_rooms = 0, reservations = [''R1'']\<rparr>"
    by code_simp
  have 3: "display_hotel ''H1''
       (snd (modify_hotel ''H1'' (Some ''Grand Inn'') None (Some 50) full_house)) =
     Some \<lparr>hotel_id = ''H1'', name = ''Grand Inn'', location = ''NYC'', total_rooms = 50,
           available_rooms = 49, reservations = [''R1'']\<rparr>"
    by code_simp
  from modify_hotel_total_rooms [OF 1, of None None 0]
    modify_hotel_total_rooms [OF 1, of "Some ''Grand Inn''" None 50] 1 2 3
  show ?thesis by simp
qed

text \<open>
  C10. \<^const>\<open>reserve_room\<close> does not look for the identifier on the occupant list. On a
  hotel with at least two rooms available, two calls with one identifier both succeed
  and append it twice; the \<^const>\<open>cancel_room\<close> that follows succeeds and removes the
  first occurrence only, so the identifier occurs once more than at the start.
\<close>

theorem reserve_room_twice:
  "display_hotel hid f = Some h \<Longrightarrow> 2 \<le> available_rooms h \<Longrightarrow>
   fst (reserve_room hid rid f) = Inr () \<and>
   fst (reserve_room hid rid (snd (reserve_room hid rid f))) = Inr () \<and>
   display_hotel hid (snd (reserve_room hid rid (snd (reserve_room hid rid f)))) =
     Some (h\<lparr>available_rooms := available_rooms h - 2,
             reservations := reservations h @ [rid, rid]\<rparr>) \<and>
   fst (cancel_room hid rid (snd (reserve_room hid rid (snd (reserve_room hid rid f))))) = Inr () \<and>
   display_hotel hid
     (snd (cancel_room hid rid (snd (reserve_room hid rid (snd (reserve_room hid rid f)))))) =
     Some (h\<lparr>available_rooms := min (total_rooms h) (available_rooms h - 1),
             reservations := remove1 rid (reservations h @ [rid, rid])\<rparr>) \<and>
   count_list (remove1 rid (reservations h @ [rid, rid])) rid
     = count_list (reservations h) rid + 1"
proof -
  assume h: "display_hotel hid f = Some h" and two: "2 \<le> available_rooms h"
  let ?f1 = "snd (reserve_room hid rid f)"
  let ?h1 = "h\<lparr>available_rooms := available_rooms h - 1,
               reservations := reservations h @ [rid]\<rparr>"
  let ?f2 = "snd (reserve_room hid rid ?f1)"
  let ?h2 = "h\<lparr>available_rooms := available_rooms h - 2,
               reservations := reservations h @ [rid, rid]\<rparr>"
  from h two have ok1: "fst (reserve_room hid rid f) = Inr ()"
    by (auto simp: reserve_room_success_iff)
  from h two have d1: "display_hotel hid ?f1 = Some ?h1"
    by (simp add: display_hotel_reserve_room)
  from d1 two have ok2: "fst (reserve_room hid rid ?f1) = Inr ()"
    by (auto simp: reserve_room_success_iff)
  from d1 two have d2: "display_hotel hid ?f2 = Some ?h2"
    by (simp add: display_hotel_reserve_room)
  from d2 have ok3: "fst (cancel_room hid rid ?f2) = Inr ()"
    by (auto simp: cancel_room_success_iff)
  from d2 have d3: "display_hotel hid (snd (cancel_room hid rid ?f2)) =
     Some (h\<lparr>available_rooms := min (total_rooms h) (available_rooms h - 1),
             reservations := remove1 rid (reservations h @ [rid, rid])\<rparr>)"
    by (simp add: display_hotel_cancel_room)
  have c: "count_list (remove1 rid (reservations h @ [rid, rid])) rid
     = count_list (reservations h) rid + 1"
    by (rule count_list_remove1_doubled)
  from ok1 ok2 d2 ok3 d3 c show ?thesis by simp
qed

theorem reserve_room_twice_witness:
  "display_hotel ''H2'' two_rooms = Some (Hotel ''H2'' ''Grand Inn'' ''NYC'' 2) \<and>
   fst (reserve_room ''H2'' ''R1'' two_rooms) = Inr () \<and>
   fst (reserve_room ''H2'' ''R1'' (snd (reserve_room ''H2'' ''R1'' two_rooms))) = Inr () \<and>
   display_hotel ''H2'' (snd (reserve_room ''H2'' ''R1'' (snd (reserve_room ''H2'' ''R1'' two_rooms))))
     = Some \<lparr>hotel_id = ''H2'', name = ''Grand Inn'', location = ''NYC'', total_rooms = 2,
             available_rooms = 0, reservations = [''R1'', ''R1'']\<rparr> \<and>
   display_hotel ''H2''
     (snd (cancel_room ''H2'' ''R1''
        (snd (reserve_room ''H2'' ''R1'' (snd (reserve_room ''H2'' ''R1'' two_rooms))))))
     = Some \<lparr>hotel_id = ''H2'', name = ''Grand Inn'', location = ''NYC'', total_rooms = 2,
             available_rooms = 1, reservations = [''R1'']\<rparr>"
proof -
  have 1: "display_hotel ''H2'' two_rooms = Some (Hotel ''H2'' ''Grand Inn'' ''NYC'' 2)"
    by code_simp
  have 2: "(2::int) \<le> available_rooms (Hotel ''H2'' ''Grand Inn'' ''NYC'' 2)"
    by (simp add: Hotel_def)
  from reserve_room_twice [OF 1 2, of "''R1''"] 1 show ?thesis
    by (simp add: Hotel_def)
qed

text \<open>
  C8. A store file whose items have distinct keys, one of them a value on which
  \<^verbatim>\<open>from_dict\<close> raises (\<^verbatim>\<open>KeyError\<close> for a missing required key, \<^verbatim>\<open>TypeError\<close> for a value
  that is no object) and all others values that \<^verbatim>\<open>from_dict\<close> accepts, loads as exactly
  the other items, in their order, each as the record \<^verbatim>\<open>from_dict\<close> returns; the load
  prints one line, for the malformed record, and returns. This holds for the hotel, the
  customer and the reservation store.
\<close>

theorem load_skips_malformed:
  "(distinct (map fst (hxs @ (hk, hbad) # hys)) \<and> hotel_from_dict hbad = Inl he \<and>
    (\<forall>p \<in> set (hxs @ hys). \<not> isl (hotel_from_dict (snd p))) \<longrightarrow>
    (\<exists>hs. load_hotels (Content (hxs @ (hk, hbad) # hys)) = (hs, [RecordError hk he]) \<and>
       loads_as hotel_from_dict (hxs @ hys) hs \<and> length hs = length hxs + length hys)) \<and>
   (distinct (map fst (cxs @ (ck, cbad) # cys)) \<and> customer_from_dict cbad = Inl ce \<and>
    (\<forall>p \<in> set (cxs @ cys). \<not> isl (customer_from_dict (snd p))) \<longrightarrow>
    (\<exists>cs. load_customers (Content (cxs @ (ck, cbad) # cys)) = (cs, [RecordError ck ce]) \<and>
       loads_as customer_from_dict (cxs @ cys) cs \<and> length cs = length cxs + length cys)) \<and>
   (distinct (map fst (rxs @ (rk, rbad) # rys)) \<and> reservation_from_dict rbad = Inl re \<and>
    (\<forall>p \<in> set (rxs @ rys). \<not> isl (reservation_from_dict (snd p))) \<longrightarrow>
    (\<exists>rs. load_reservations (Content (rxs @ (rk, rbad) # rys)) = (rs, [RecordError rk re]) \<and>
       loads_as reservation_from_dict (rxs @ rys) rs \<and> length rs = length rxs + length rys))"
  using one_bad_hotel [of hxs hk hbad hys he] one_bad_customer [of cxs ck cbad cys ce]
    one_bad_reservation [of rxs rk rbad rys re]
  by blast

theorem load_skips_malformed_witness:
  "distinct (map fst ([(''H1'', hotel_to_dict (Hotel ''H1'' ''Tiny Hotel'' ''NYC'' 1))] @
      (''H2'', nameless_hotel) # [(''H3'', minimal_hotel)])) \<and>
   hotel_from_dict nameless_hotel = Inl (KeyError ''name'') \<and>
   hotel_from_dict (hotel_to_dict (Hotel ''H1'' ''Tiny Hotel'' ''NYC'' 1))
     = Inr (Hotel ''H1'' ''Tiny Hotel'' ''NYC'' 1) \<and>
   hotel_from_dict minimal_hotel = Inr (Hotel ''H3'' ''Annex'' ''LA'' 5) \<and>
   load_hotels (Content ([(''H1'', hotel_to_dict (Hotel ''H1'' ''Tiny Hotel'' ''NYC'' 1))] @
      (''H2'', nameless_hotel) # [(''H3'', minimal_hotel)]))
     = ([(''H1'', Hotel ''H1'' ''Tiny Hotel'' ''NYC'' 1), (''H3'', Hotel ''H3'' ''Annex'' ''LA'' 5)],
        [RecordError ''H2'' (KeyError ''name'')]) \<and>
   customer_from_dict NotAnObject = Inl TypeError \<and>
   load_customers (Content ([(''C1'', customer_to_dict alice)] @
      (''C9'', NotAnObject) # [(''C2'', customer_to_dict bob)]))
     = ([(''C1'', alice), (''C2'', bob)], [RecordError ''C9'' TypeError]) \<and>
   reservation_from_dict stray_reservation = Inl (KeyError ''reservation_id'') \<and>
   load_reservations (Content ([] @
      (''R0'', stray_reservation) #
      [(''R1'', reservation_to_dict (stay ''R1'')), (''R2'', reservation_to_dict (stay ''R2''))]))
     = ([(''R1'', stay ''R1''), (''R2'', stay ''R2'')],
        [RecordError ''R0'' (KeyError ''reservation_id'')])"
proof -
  let ?h1 = "Hotel ''H1'' ''Tiny Hotel'' ''NYC'' 1"
  let ?h3 = "Hotel ''H3'' ''Annex'' ''LA'' 5"
  have hb: "hotel_from_dict nameless_hotel = Inl (KeyError ''name'')" by code_simp
  have h1: "hotel_from_dict (hotel_to_dict ?h1) = Inr ?h1" by (rule hotel_round_trip)
  have h3: "hotel_from_dict minimal_hotel = Inr ?h3" by code_simp
  have cb: "customer_from_dict NotAnObject = Inl TypeError" by simp
  have rb: "reservation_from_dict stray_reservation = Inl (KeyError ''reservation_id'')"
    by code_simp
  have hd: "distinct (map fst ([(''H1'', hotel_to_dict ?h1)] @
      (''H2'', nameless_hotel) # [(''H3'', minimal_hotel)]))" by simp
  note all = load_skips_malformed
    [of "[(''H1'', hotel_to_dict ?h1)]" "''H2''" nameless_hotel "[(''H3'', minimal_hotel)]"
        "KeyError ''name''"
        "[(''C1'', customer_to_dict alice)]" "''C9''" NotAnObject "[(''C2'', customer_to_dict bob)]"
        TypeError
        "[]" "''R0''" stray_reservation
        "[(''R1'', reservation_to_dict (stay ''R1'')), (''R2'', reservation_to_dict (stay ''R2''))]"
        "KeyError ''reservation_id''"]
  from all hb h1 h3 obtain hs where
    hs: "load_hotels (Content ([(''H1'', hotel_to_dict ?h1)] @
           (''H2'', nameless_hotel) # [(''H3'', minimal_hotel)])) = (hs, [RecordError ''H2'' (KeyError ''name'')])"
      "loads_as hotel_from_dict ([(''H1'', hotel_to_dict ?h1)] @ [(''H3'', minimal_hotel)]) hs"
    by auto
  from hs(2) h1 h3 have "hs = [(''H1'', ?h1), (''H3'', ?h3)]"
    by (auto simp: loads_as_def list_all2_Cons1)
  with hs(1) have H: "load_hotels (Content ([(''H1'', hotel_to_dict ?h1)] @
           (''H2'', nameless_hotel) # [(''H3'', minimal_hotel)]))
     = ([(''H1'', ?h1), (''H3'', ?h3)], [RecordError ''H2'' (KeyError ''name'')])" by simp
  from all cb obtain cs where
    cs: "load_customers (Content ([(''C1'', customer_to_dict alice)] @
           (''C9'', NotAnObject) # [(''C2'', customer_to_dict bob)])) = (cs, [RecordError ''C9'' TypeError])"
      "loads_as customer_from_dict ([(''C1'', customer_to_dict alice)] @ [(''C2'', customer_to_dict bob)]) cs"
    by (auto simp: customer_round_trip)
  from cs(2) have "cs = [(''C1'', alice), (''C2'', bob)]"
    by (auto simp: loads_as_def list_all2_Cons1 customer_round_trip)
  with cs(1) have C: "load_customers (Content ([(''C1'', customer_to_dict alice)] @
           (''C9'', NotAnObject) # [(''C2'', customer_to_dict bob)]))
      = ([(''C1'', alice), (''C2'', bob)], [RecordError ''C9'' TypeError])" by simp
  from all rb obtain rs where
    rs: "load_reservations (Content ([] @ (''R0'', stray_reservation) #
           [(''R1'', reservation_to_dict (stay ''R1'')), (''R2'', reservation_to_dict (stay ''R2''))]))
         = (rs, [RecordError ''R0'' (KeyError ''reservation_id'')])"
      "loads_as reservation_from_dict ([] @
           [(''R1'', reservation_to_dict (stay ''R1'')), (''R2'', reservation_to_dict (stay ''R2''))]) rs"
    by (auto simp: reservation_round_trip)
  from rs(2) have "rs = [(''R1'', stay ''R1''), (''R2'', stay ''R2'')]"
    by (auto simp: loads_as_def list_all2_Cons1 reservation_round_trip)
  with rs(1) have R: "load_reservations (Content ([] @ (''R0'', stray_reservation) #
           [(''R1'', reservation_to_dict (stay ''R1'')), (''R2'', reservation_to_dict (stay ''R2''))]))
         = ([(''R1'', stay ''R1''), (''R2'', stay ''R2'')],
            [RecordError ''R0'' (KeyError ''reservation_id'')])" by simp
  from hd hb h1 h3 H cb C rb R show ?thesis by blast
qed

text \<open>
  C5. In every world that calls of \<^const>\<open>create_hotel\<close>, \<^const>\<open>create_customer\<close>,
  \<^const>\<open>create_reservation\<close> and \<^const>\<open>cancel_reservation\<close> build from the state without
  files, a reservation record for a hotel is stored under an identifier exactly when
  that hotel is stored and has the identifier on its occupant list. Every stored hotel
  lists no identifier twice, its availability is its total minus the length of the
  list, and so the number of reservation records that name it is its total minus its
  availability.
\<close>

theorem record_iff_inventory:
  assumes "reachable w"
  shows "((\<exists>r. display_reservation rid w = Some r \<and> res_hotel_id r = hid) \<longleftrightarrow>
          (\<exists>h. display_hotel hid (hotels_file w) = Some h \<and> rid \<in> set (reservations h))) \<and>
         (display_hotel hid (hotels_file w) = Some h \<longrightarrow>
            distinct (reservations h) \<and>
            available_rooms h = total_rooms h - int (length (reservations h)) \<and>
            int (card {x. \<exists>r. display_reservation x w = Some r \<and> res_hotel_id r = hid})
              = total_rooms h - available_rooms h)"
proof -
  from assms have c: "consistent w" by (rule reachable_consistent)
  have iff: "(\<exists>r. display_reservation x w = Some r \<and> res_hotel_id r = k) \<longleftrightarrow>
          (\<exists>h. display_hotel k (hotels_file w) = Some h \<and> x \<in> set (reservations h))" for x k
    using c unfolding consistent_def agree_def by (metis option.inject)
  have 2: "distinct (reservations h) \<and>
            available_rooms h = total_rooms h - int (length (reservations h)) \<and>
            int (card {x. \<exists>r. display_reservation x w = Some r \<and> res_hotel_id r = hid})
              = total_rooms h - available_rooms h"
    if h: "display_hotel hid (hotels_file w) = Some h"
  proof -
    from c h have d: "distinct (reservations h)" and m: "room_count_matches h"
      unfolding consistent_def agree_def by blast+
    have "{x. \<exists>r. display_reservation x w = Some r \<and> res_hotel_id r = hid}
            = set (reservations h)"
      using iff [of _ hid] h by auto
    then have "card {x. \<exists>r. display_reservation x w = Some r \<and> res_hotel_id r = hid}
            = length (reservations h)"
      using d by (simp add: distinct_card)
    with d m show ?thesis by (simp add: room_count_matches_def)
  qed
  from iff [of rid hid] 2 show ?thesis by blast
qed

theorem record_iff_inventory_witness:
  "reachable booked \<and>
   display_reservation ''R1'' booked = Some (stay ''R1'') \<and>
   res_hotel_id (stay ''R1'') = ''H1'' \<and>
   display_hotel ''H1'' (hotels_file booked) =
     Some \<lparr>hotel_id = ''H1'', name = ''Tiny Hotel'', location = ''NYC'', total_rooms = 1,
           available_rooms = 0, reservations = [''R1'']\<rparr> \<and>
   int (card {x. \<exists>r. display_reservation x booked = Some r \<and> res_hotel_id r = ''H1''}) = 1 \<and>
   display_reservation ''R2'' booked = None \<and>
   reachable (snd (cancel_reservation ''R1'' booked)) \<and>
   display_reservation ''R1'' (snd (cancel_reservation ''R1'' booked)) = None \<and>
   display_hotel ''H1'' (hotels_file (snd (cancel_reservation ''R1'' booked))) =
     Some (Hotel ''H1'' ''Tiny Hotel'' ''NYC'' 1) \<and>
   card {x. \<exists>r. display_reservation x (snd (cancel_reservation ''R1'' booked)) = Some r \<and>
               res_hotel_id r = ''H1''} = 0"
proof -
  let ?h = "\<lparr>hotel_id = ''H1'', name = ''Tiny Hotel'', location = ''NYC'', total_rooms = 1,
           available_rooms = 0, reservations = [''R1'']\<rparr>"
  let ?w = "snd (cancel_reservation ''R1'' booked)"
  have r: "reachable booked" by (rule reachable_booked)
  have r': "reachable ?w" by (rule reachable.cancel [OF r])
  have 1: "display_reservation ''R1'' booked = Some (stay ''R1'')" by code_simp
  have 2: "res_hotel_id (stay ''R1'') = ''H1''" by code_simp
  have 3: "display_hotel ''H1'' (hotels_file booked) = Some ?h" by code_simp
  have 4: "display_reservation ''R2'' booked = None" by code_simp
  have 5: "display_reservation ''R1'' ?w = None" by code_simp
  have 6: "display_hotel ''H1'' (hotels_file ?w) = Some (Hotel ''H1'' ''Tiny Hotel'' ''NYC'' 1)"
    by code_simp
  from record_iff_inventory [OF r, of "''R1''" "''H1''" ?h] 3
  have 7: "int (card {x. \<exists>r. display_reservation x booked = Some r \<and> res_hotel_id r = ''H1''}) = 1"
    by simp
  from record_iff_inventory [OF r', of "''R1''" "''H1''" "Hotel ''H1'' ''Tiny Hotel'' ''NYC'' 1"] 6
  have 8: "card {x. \<exists>r. display_reservation x ?w = Some r \<and> res_hotel_id r = ''H1''} = 0"
    by (simp add: Hotel_def)
  from r r' 1 2 3 4 5 6 7 8 show ?thesis by blast
qed

text \<open>
  C6, as the code has it. In every hotel file that calls of \<^const>\<open>create_hotel\<close>,
  \<^const>\<open>modify_hotel\<close>, \<^const>\<open>reserve_room\<close> and \<^const>\<open>cancel_room\<close> build from no file, the
  room totals handed to the first two being at least 0, every hotel has an availability
  between 0 and its total. A hotel that \<^const>\<open>create_hotel\<close> returns has its availability
  equal to its total, whatever the total, and is the one stored.
\<close>

theorem availability_within_bounds:
  "(hotels_reachable f \<and> display_hotel k f = Some h \<longrightarrow> within_bounds h) \<and>
   (fst (create_hotel hid nm loc rooms f') = Inr h' \<longrightarrow>
      h' = Hotel hid nm loc rooms \<and> available_rooms h' = total_rooms h' \<and>
      display_hotel hid (snd (create_hotel hid nm loc rooms f')) = Some h')"
proof (intro conjI impI)
  assume "hotels_reachable f \<and> display_hotel k f = Some h"
  then show "within_bounds h" by (auto intro: within_bounds_reachable)
next
  assume a: "fst (create_hotel hid nm loc rooms f') = Inr h'"
  then have new: "hid \<notin> fst ` set (fst (load_hotels f'))"
    by (auto simp: create_hotel_def Let_def split: if_splits)
  with a show "h' = Hotel hid nm loc rooms"
    by (auto simp: create_hotel_def Let_def)
  then show "available_rooms h' = total_rooms h'" by (simp add: Hotel_def)
  from new have "display_hotel hid f' = None"
    by (simp add: display_hotel_def map_of_eq_None_iff)
  with \<open>h' = Hotel hid nm loc rooms\<close>
  show "display_hotel hid (snd (create_hotel hid nm loc rooms f')) = Some h'"
    by (simp add: display_hotel_create_hotel)
qed

theorem availability_within_bounds_witness:
  "hotels_reachable full_house \<and>
   display_hotel ''H1'' full_house =
     Some \<lparr>hotel_id = ''H1'', name = ''Tiny Hotel'', location = ''NYC'', total_rooms = 1,
           available_rooms = 0, reservations = [''R1'']\<rparr> \<and>
   within_bounds \<lparr>hotel_id = ''H1'', name = ''Tiny Hotel'', location = ''NYC'', total_rooms = 1,
           available_rooms = 0, reservations = [''R1'']\<rparr> \<and>
   fst (create_hotel ''H1'' ''Tiny Hotel'' ''NYC'' 1 Missing)
     = Inr (Hotel ''H1'' ''Tiny Hotel'' ''NYC'' 1) \<and>
   available_rooms (Hotel ''H1'' ''Tiny Hotel'' ''NYC'' 1)
     = total_rooms (Hotel ''H1'' ''Tiny Hotel'' ''NYC'' 1)"
proof -
  let ?h = "\<lparr>hotel_id = ''H1'', name = ''Tiny Hotel'', location = ''NYC'', total_rooms = 1,
           available_rooms = 0, reservations = [''R1'']\<rparr>"
  have "hotels_reachable tiny_hotel"
    unfolding tiny_hotel_def by (rule hotels_reachable.created [OF hotels_reachable.no_file]) simp
  then have 1: "hotels_reachable full_house"
    unfolding full_house_def by (rule hotels_reachable.reserved)
  have 2: "display_hotel ''H1'' full_house = Some ?h" by code_simp
  have 3: "fst (create_hotel ''H1'' ''Tiny Hotel'' ''NYC'' 1 Missing)
     = Inr (Hotel ''H1'' ''Tiny Hotel'' ''NYC'' 1)" by code_simp
  from availability_within_bounds
    [of full_house "''H1''" ?h "''H1''" "''Tiny Hotel''" "''NYC''" 1 Missing
        "Hotel ''H1'' ''Tiny Hotel'' ''NYC'' 1"] 1 2 3
  show ?thesis by simp
qed

text \<open>
  C6 as stated fails: the code takes any integer as a total. A hotel created with
  \<^verbatim>\<open>total_rooms = -1\<close> has the availability \<open>-1\<close>, and a hotel whose total is modified to
  \<open>-1\<close> has the availability 0, above its total.
\<close>

theorem availability_bounds_counterexample:
  "fst (create_hotel ''H1'' ''Tiny Hotel'' ''NYC'' (- 1) Missing) =
     Inr \<lparr>hotel_id = ''H1'', name = ''Tiny Hotel'', location = ''NYC'', total_rooms = - 1,
          available_rooms = - 1, reservations = []\<rparr> \<and>
   display_hotel ''H1'' (snd (create_hotel ''H1'' ''Tiny Hotel'' ''NYC'' (- 1) Missing)) =
     Some \<lparr>hotel_id = ''H1'', name = ''Tiny Hotel'', location = ''NYC'', total_rooms = - 1,
          available_rooms = - 1, reservations = []\<rparr> \<and>
   \<not> within_bounds
     \<lparr>hotel_id = ''H1'', name = ''Tiny Hotel'', location = ''NYC'', total_rooms = - 1,
      available_rooms = - 1, reservations = []\<rparr> \<and>
   display_hotel ''H1'' (snd (modify_hotel ''H1'' None None (Some (- 1)) tiny_hotel)) =
     Some \<lparr>hotel_id = ''H1'', name = ''Tiny Hotel'', location = ''NYC'', total_rooms = - 1,
          available_rooms = 0, reservations = []\<rparr> \<and>
   \<not> within_bounds
     \<lparr>hotel_id = ''H1'', name = ''Tiny Hotel'', location = ''NYC'', total_rooms = - 1,
      available_rooms = 0, reservations = []\<rparr>"
proof (intro conjI)
  show "fst (create_hotel ''H1'' ''Tiny Hotel'' ''NYC'' (- 1) Missing) =
     Inr \<lparr>hotel_id = ''H1'', name = ''Tiny Hotel'', location = ''NYC'', total_rooms = - 1,
          available_rooms = - 1, reservations = []\<rparr>" by code_simp
  show "display_hotel ''H1'' (snd (create_hotel ''H1'' ''Tiny Hotel'' ''NYC'' (- 1) Missing)) =
     Some \<lparr>hotel_id = ''H1'', name = ''Tiny Hotel'', location = ''NYC'', total_rooms = - 1,
          available_rooms = - 1, reservations = []\<rparr>" by code_simp
  show "\<not> within_bounds
     \<lparr>hotel_id = ''H1'', name = ''Tiny Hotel'', location = ''NYC'', total_rooms = - 1,
      available_rooms = - 1, reservations = []\<rparr>" by (simp add: within_bounds_def)
  show "display_hotel ''H1'' (snd (modify_hotel ''H1'' None None (Some (- 1)) tiny_hotel)) =
     Some \<lparr>hotel_id = ''H1'', name = ''Tiny Hotel'', location = ''NYC'', total_rooms = - 1,
          available_rooms = 0, reservations = []\<rparr>" by code_simp
  show "\<not> within_bounds
     \<lparr>hotel_id = ''H1'', name = ''Tiny Hotel'', location = ''NYC'', total_rooms = - 1,
      available_rooms = 0, reservations = []\<rparr>" by (simp add: within_bounds_def)
qed

end
